theory Spec2Isabelle
  imports Main "HOL-Library.Word"
begin

unbundle bit_operations_syntax

section \<open>JavaScript values, strings and bytes\<close>

text \<open>
  The chat protocol (\<^verbatim>\<open>chat-protocol.js\<close>) exchanges plain JavaScript objects that
  are serialised with \<^verbatim>\<open>JSON.stringify\<close>. They are modelled by the datatype below.
  A JavaScript string is a \<^typ>\<open>string\<close>; each character stands for the code unit
  of the same number, so the model covers the code units below 256. Numbers are the
  integers (time stamps, sequence numbers); \<open>JUndefined\<close> is the value of a missing
  property.
\<close>

type_synonym byte = "8 word"
type_synonym u32 = "32 word"

datatype jsval =
    JUndefined
  | JNull
  | JBool bool
  | JNum int
  | JStr string
  | JArr "jsval list"
  | JObj "(string \<times> jsval) list"

text \<open>
  Property access \<^verbatim>\<open>v.k\<close>, for the property names the protocol reads (none of
  them is a built-in property of a string or an array). \<open>None\<close> is the
  \<^verbatim>\<open>TypeError\<close> that reading a property of \<^verbatim>\<open>undefined\<close> or \<^verbatim>\<open>null\<close> throws.
\<close>

fun get_prop :: "jsval \<Rightarrow> string \<Rightarrow> jsval option" where
  "get_prop JUndefined k = None"
| "get_prop JNull k = None"
| "get_prop (JObj fs) k = Some (case map_of fs k of Some v \<Rightarrow> v | None \<Rightarrow> JUndefined)"
| "get_prop v k = Some JUndefined"

subsection \<open>Printing numbers\<close>

definition digit_char :: "nat \<Rightarrow> char" where
  "digit_char d = char_of (48 + d)"

fun show_nat :: "nat \<Rightarrow> string" where
  "show_nat n = (if n < 10 then [digit_char n] else show_nat (n div 10) @ [digit_char (n mod 10)])"

declare show_nat.simps [simp del]

definition show_int :: "int \<Rightarrow> string" where
  "show_int i = (if i < 0 then CHR ''-'' # show_nat (nat (- i)) else show_nat (nat i))"

definition hex_char :: "nat \<Rightarrow> char" where
  "hex_char d = (if d < 10 then char_of (48 + d) else char_of (87 + d))"

text \<open>\<^verbatim>\<open>b.toString(16).padStart(2, '0')\<close> for a byte.\<close>

definition hex2 :: "byte \<Rightarrow> string" where
  "hex2 b = [hex_char (unat b div 16), hex_char (unat b mod 16)]"

text \<open>\<^verbatim>\<open>h.toString(16).padStart(8, '0')\<close> for an unsigned 32-bit number.\<close>

definition hex8 :: "u32 \<Rightarrow> string" where
  "hex8 w = map (\<lambda>i. hex_char (unat (drop_bit (4 * i) w AND 15))) [7, 6, 5, 4, 3, 2, 1, 0]"

subsection \<open>String conversion and JSON.stringify\<close>

fun join :: "string \<Rightarrow> string list \<Rightarrow> string" where
  "join sep [] = []"
| "join sep [x] = x"
| "join sep (x # y # ys) = x @ sep @ join sep (y # ys)"

text \<open>
  \<^verbatim>\<open>String(v)\<close>, as a template literal applies it. The elements of an array are
  joined with a comma, \<^verbatim>\<open>null\<close> and \<^verbatim>\<open>undefined\<close> elements printing as nothing.
\<close>

fun String_of :: "jsval \<Rightarrow> string"
  and String_of_elems :: "jsval list \<Rightarrow> string list" where
  "String_of JUndefined = ''undefined''"
| "String_of JNull = ''null''"
| "String_of (JBool b) = (if b then ''true'' else ''false'')"
| "String_of (JNum n) = show_int n"
| "String_of (JStr s) = s"
| "String_of (JArr xs) = join '','' (String_of_elems xs)"
| "String_of (JObj fs) = ''[object Object]''"
| "String_of_elems [] = []"
| "String_of_elems (x # xs) =
     (if x = JUndefined \<or> x = JNull then [] else String_of x) # String_of_elems xs"

text \<open>The escapes of a JSON string literal.\<close>

definition escape_char :: "char \<Rightarrow> string" where
  "escape_char c =
     (let n = (of_char c :: nat) in
      if n = 34 then [char_of (92::nat), char_of (34::nat)]
      else if n = 92 then [char_of (92::nat), char_of (92::nat)]
      else if n = 8 then char_of (92::nat) # ''b''
      else if n = 12 then char_of (92::nat) # ''f''
      else if n = 10 then char_of (92::nat) # ''n''
      else if n = 13 then char_of (92::nat) # ''r''
      else if n = 9 then char_of (92::nat) # ''t''
      else if n < 32 then char_of (92::nat) # ''u00'' @ [hex_char (n div 16), hex_char (n mod 16)]
      else [c])"

definition quote :: "string \<Rightarrow> string" where
  "quote s = char_of (34::nat) # concat (map escape_char s) @ [char_of (34::nat)]"

text \<open>
  \<^verbatim>\<open>JSON.stringify(v)\<close>. The result \<open>None\<close> is JavaScript's \<^verbatim>\<open>undefined\<close>, which
  \<^verbatim>\<open>JSON.stringify(undefined)\<close> returns. A property whose value is \<^verbatim>\<open>undefined\<close>
  is left out of an object; in an array it prints as \<^verbatim>\<open>null\<close>.
\<close>

fun JSON_stringify :: "jsval \<Rightarrow> string option"
  and stringify_elems :: "jsval list \<Rightarrow> string list"
  and stringify_props :: "(string \<times> jsval) list \<Rightarrow> string list" where
  "JSON_stringify JUndefined = None"
| "JSON_stringify JNull = Some ''null''"
| "JSON_stringify (JBool b) = Some (if b then ''true'' else ''false'')"
| "JSON_stringify (JNum n) = Some (show_int n)"
| "JSON_stringify (JStr s) = Some (quote s)"
| "JSON_stringify (JArr xs) = Some (''['' @ join '','' (stringify_elems xs) @ '']'')"
| "JSON_stringify (JObj fs) = Some (''{'' @ join '','' (stringify_props fs) @ ''}'')"
| "stringify_elems [] = []"
| "stringify_elems (x # xs) =
     (case JSON_stringify x of None \<Rightarrow> ''null'' | Some s \<Rightarrow> s) # stringify_elems xs"
| "stringify_props [] = []"
| "stringify_props ((k, v) # fs) =
     (case JSON_stringify v of
        None \<Rightarrow> stringify_props fs
      | Some s \<Rightarrow> (quote k @ '':'' @ s) # stringify_props fs)"

text \<open>
  \<^verbatim>\<open>uint8ArrayFromString(s)\<close> and \<^verbatim>\<open>new TextEncoder().encode(s)\<close>: the UTF-8
  encoding. A code unit below 128 is one byte, one from 128 to 255 is two bytes.
\<close>

definition utf8_char :: "char \<Rightarrow> byte list" where
  "utf8_char c =
     (let n = (of_char c :: nat) in
      if n < 128 then [of_nat n] else [of_nat (192 + n div 64), of_nat (128 + n mod 64)])"

definition uint8ArrayFromString :: "string \<Rightarrow> byte list" where
  "uint8ArrayFromString s = concat (map utf8_char s)"

subsection \<open>The values the model stands for\<close>

text \<open>
  Not every term of type \<^typ>\<open>jsval\<close> is a JavaScript value. A number of the
  model is an integer that a JavaScript number holds exactly (at most
  \<^verbatim>\<open>Number.MAX_SAFE_INTEGER\<close> in absolute value; such a number prints in decimal
  digits). The properties of an object are listed in the order in which JavaScript
  enumerates them: the keys that are array indices first, in ascending order, then
  the other keys in the order of their creation; no key occurs twice. For the terms
  that \<open>js_value\<close> accepts, \<open>get_prop\<close>, \<open>String_of\<close> and \<open>JSON_stringify\<close>
  compute what the runtime computes.
\<close>

definition MAX_SAFE_INTEGER :: int where
  "MAX_SAFE_INTEGER = 9007199254740991"

definition is_digit :: "char \<Rightarrow> bool" where
  "is_digit c = (48 \<le> (of_char c :: nat) \<and> (of_char c :: nat) \<le> 57)"

definition digits_value :: "string \<Rightarrow> nat" where
  "digits_value k = foldl (\<lambda>n c. 10 * n + (of_char c - 48)) 0 k"

text \<open>An array index: the decimal digits, without a leading zero, of a number below \<open>2^32 - 1\<close>.\<close>

definition array_index :: "string \<Rightarrow> bool" where
  "array_index k =
     (k \<noteq> [] \<and> filter is_digit k = k \<and> (k = ''0'' \<or> take 1 k \<noteq> ''0'') \<and>
      digits_value k < 4294967295)"

fun ascending :: "nat list \<Rightarrow> bool" where
  "ascending (a # b # r) = (a < b \<and> ascending (b # r))"
| "ascending r = True"

definition keys_ordered :: "string list \<Rightarrow> bool" where
  "keys_ordered ks =
     (ascending (map digits_value (takeWhile array_index ks)) \<and>
      filter array_index (dropWhile array_index ks) = [])"

fun js_value :: "jsval \<Rightarrow> bool"
  and js_values :: "jsval list \<Rightarrow> bool"
  and js_props :: "(string \<times> jsval) list \<Rightarrow> bool" where
  "js_value JUndefined = True"
| "js_value JNull = True"
| "js_value (JBool b) = True"
| "js_value (JNum n) = (- MAX_SAFE_INTEGER \<le> n \<and> n \<le> MAX_SAFE_INTEGER)"
| "js_value (JStr s) = True"
| "js_value (JArr xs) = js_values xs"
| "js_value (JObj fs) = (distinct (map fst fs) \<and> keys_ordered (map fst fs) \<and> js_props fs)"
| "js_values [] = True"
| "js_values (x # xs) = (js_value x \<and> js_values xs)"
| "js_props [] = True"
| "js_props ((k, v) # fs) = (js_value v \<and> js_props fs)"

section \<open>Frame codec\<close>

definition be32 :: "u32 \<Rightarrow> byte list" where
  "be32 w = [ucast (drop_bit 24 w), ucast (drop_bit 16 w), ucast (drop_bit 8 w), ucast w]"

text \<open>
  The frame in the spec's words: the payload after its length in 4 bytes, the most
  significant byte first.
\<close>

definition spec_frame :: "byte list \<Rightarrow> byte list" where
  "spec_frame payload = be32 (of_nat (length payload)) @ payload"

text \<open>
  The code frames with \<^verbatim>\<open>lp.encode\<close> and \<^verbatim>\<open>lp.decode\<close> of the package
  \<^verbatim>\<open>it-length-prefixed\<close> (version 10), which \<^verbatim>\<open>chat-protocol.js\<close> imports and passes
  to \<^verbatim>\<open>pipe\<close> without options. The package is not part of the sources; the
  definitions below follow its defaults. The length of a payload is written as an
  unsigned varint: 7 bits in each byte, the least significant group first, and the
  high bit set in every byte but the last. The encoder throws for a payload of more
  than \<^verbatim>\<open>MAX_DATA_LENGTH\<close> bytes (4 MiB); the decoder rejects a length prefix of more
  than \<^verbatim>\<open>MAX_LENGTH_LENGTH\<close> bytes and a length above \<^verbatim>\<open>MAX_DATA_LENGTH\<close>.
\<close>

definition MAX_DATA_LENGTH :: nat where
  "MAX_DATA_LENGTH = 4194304"

definition MAX_LENGTH_LENGTH :: nat where
  "MAX_LENGTH_LENGTH = 8"

fun varint :: "nat \<Rightarrow> byte list" where
  "varint n = (if n < 128 then [of_nat n] else of_nat (n mod 128 + 128) # varint (n div 128))"

declare varint.simps [simp del]

definition lp_encode :: "byte list \<Rightarrow> byte list" where
  "lp_encode payload = varint (length payload) @ payload"

text \<open>
  Reading a varint of at most \<open>k\<close> bytes from the front of the bytes received: the
  number and the bytes after it.
\<close>

fun varint_decode :: "nat \<Rightarrow> byte list \<Rightarrow> (nat \<times> byte list) option" where
  "varint_decode 0 bs = None"
| "varint_decode (Suc k) [] = None"
| "varint_decode (Suc k) (b # bs) =
     (if unat b < 128 then Some (unat b, bs)
      else case varint_decode k bs of
             None \<Rightarrow> None
           | Some (n, rest) \<Rightarrow> Some (unat b - 128 + 128 * n, rest))"

text \<open>
  The first frame of the bytes received, as \<^verbatim>\<open>lp.decode\<close> yields it, and the bytes
  that follow it; \<open>None\<close> when the bytes do not begin with a whole frame that the
  decoder accepts.
\<close>

definition lp_decode_frame :: "byte list \<Rightarrow> (byte list \<times> byte list) option" where
  "lp_decode_frame bs =
     (case varint_decode MAX_LENGTH_LENGTH bs of
        None \<Rightarrow> None
      | Some (n, rest) \<Rightarrow>
          if n > MAX_DATA_LENGTH \<or> length rest < n then None
          else Some (take n rest, drop n rest))"

section \<open>Room identifier\<close>

subsection \<open>SHA-256\<close>

text \<open>
  \<^verbatim>\<open>crypto.subtle.digest('SHA-256', data)\<close> of the Web Crypto API: the hash function
  of FIPS 180-4 on a byte string.
\<close>

definition rotr :: "nat \<Rightarrow> u32 \<Rightarrow> u32" where
  "rotr n x = drop_bit n x OR push_bit (32 - n) x"

text \<open>The 64 round constants and the 8 initial hash values of SHA-256, in decimal.\<close>

definition sha_K :: "u32 list" where
  "sha_K = [
   1116352408, 1899447441, 3049323471, 3921009573, 961987163, 1508970993,
   2453635748, 2870763221, 3624381080, 310598401, 607225278, 1426881987,
   1925078388, 2162078206, 2614888103, 3248222580, 3835390401, 4022224774,
   264347078, 604807628, 770255983, 1249150122, 1555081692, 1996064986,
   2554220882, 2821834349, 2952996808, 3210313671, 3336571891, 3584528711,
   113926993, 338241895, 666307205, 773529912, 1294757372, 1396182291,
   1695183700, 1986661051, 2177026350, 2456956037, 2730485921, 2820302411,
   3259730800, 3345764771, 3516065817, 3600352804, 4094571909, 275423344,
   430227734, 506948616, 659060556, 883997877, 958139571, 1322822218,
   1537002063, 1747873779, 1955562222, 2024104815, 2227730452, 2361852424,
   2428436474, 2756734187, 3204031479, 3329325298]"

definition be64 :: "64 word \<Rightarrow> byte list" where
  "be64 n = map (\<lambda>i. ucast (drop_bit (8 * i) n)) [7, 6, 5, 4, 3, 2, 1, 0]"

definition sha_pad :: "byte list \<Rightarrow> byte list" where
  "sha_pad m =
     m @ [0x80] @ replicate ((119 - length m mod 64) mod 64) 0 @ be64 (of_nat (8 * length m))"

fun words_of :: "byte list \<Rightarrow> u32 list" where
  "words_of (a # b # c # d # r) =
     (push_bit 24 (ucast a) OR push_bit 16 (ucast b) OR push_bit 8 (ucast c) OR ucast d)
       # words_of r"
| "words_of r = []"

fun schedule :: "nat \<Rightarrow> u32 list \<Rightarrow> u32 list" where
  "schedule 0 w = w"
| "schedule (Suc n) w =
     (let t = length w;
          w15 = w ! (t - 15);
          w2 = w ! (t - 2);
          s0 = rotr 7 w15 XOR rotr 18 w15 XOR drop_bit 3 w15;
          s1 = rotr 17 w2 XOR rotr 19 w2 XOR drop_bit 10 w2
      in schedule n (w @ [w ! (t - 16) + s0 + w ! (t - 7) + s1]))"

type_synonym sha_state = "u32 \<times> u32 \<times> u32 \<times> u32 \<times> u32 \<times> u32 \<times> u32 \<times> u32"

fun sha_round :: "sha_state \<Rightarrow> u32 \<times> u32 \<Rightarrow> sha_state" where
  "sha_round (a, b, c, d, e, f, g, h) (k, w) =
     (let S1 = rotr 6 e XOR rotr 11 e XOR rotr 25 e;
          ch = (e AND f) XOR (NOT e AND g);
          t1 = h + S1 + ch + k + w;
          S0 = rotr 2 a XOR rotr 13 a XOR rotr 22 a;
          mj = (a AND b) XOR (a AND c) XOR (b AND c);
          t2 = S0 + mj
      in (t1 + t2, a, b, c, d + t1, e, f, g))"

fun compress :: "sha_state \<Rightarrow> u32 list \<Rightarrow> sha_state" where
  "compress (a, b, c, d, e, f, g, h) blk =
     (case foldl sha_round (a, b, c, d, e, f, g, h) (zip sha_K (schedule 48 blk)) of
        (a', b', c', d', e', f', g', h') \<Rightarrow>
          (a + a', b + b', c + c', d + d', e + e', f + f', g + g', h + h'))"

fun blocks :: "nat \<Rightarrow> u32 list \<Rightarrow> u32 list list" where
  "blocks 0 ws = []"
| "blocks (Suc n) ws = take 16 ws # blocks n (drop 16 ws)"

definition sha_H0 :: sha_state where
  "sha_H0 = (1779033703, 3144134277, 1013904242, 2773480762,
             1359893119, 2600822924, 528734635, 1541459225)"

fun sha_out :: "sha_state \<Rightarrow> byte list" where
  "sha_out (a, b, c, d, e, f, g, h) = concat (map be32 [a, b, c, d, e, f, g, h])"

definition sha256 :: "byte list \<Rightarrow> byte list" where
  "sha256 m =
     (let ws = words_of (sha_pad m)
      in sha_out (foldl compress sha_H0 (blocks (length ws div 16) ws)))"

subsection \<open>ChatProtocol.generateRoomId\<close>

text \<open>
  The default order of \<^verbatim>\<open>Array.prototype.sort\<close> on strings: by code units, a proper
  prefix first.
\<close>

fun js_less :: "string \<Rightarrow> string \<Rightarrow> bool" where
  "js_less [] [] = False"
| "js_less [] (y # ys) = True"
| "js_less (x # xs) [] = False"
| "js_less (x # xs) (y # ys) =
     (if (of_char x :: nat) < of_char y then True
      else if (of_char y :: nat) < of_char x then False
      else js_less xs ys)"

fun js_insert :: "string \<Rightarrow> string list \<Rightarrow> string list" where
  "js_insert a [] = [a]"
| "js_insert a (b # bs) = (if js_less b a then b # js_insert a bs else a # b # bs)"

definition js_sort :: "string list \<Rightarrow> string list" where
  "js_sort xs = foldr js_insert xs []"

text \<open>
  \<^verbatim>\<open>
  static async generateRoomId(peerId1, peerId2) {
    const sorted = [peerId1, peerId2].sort();
    const combined = sorted.join(':');
    const encoder = new TextEncoder();
    const data = encoder.encode(combined);
    const hashBuffer = await crypto.subtle.digest('SHA-256', data);
    const hashArray = Array.from(new Uint8Array(hashBuffer));
    const hashHex = hashArray.map(b => b.toString(16).padStart(2, '0')).join('');
    return hashHex.substring(0, 16);
  }
  \<close>
\<close>

definition generateRoomId :: "string \<Rightarrow> string \<Rightarrow> string" where
  "generateRoomId peerId1 peerId2 =
     (let sorted = js_sort [peerId1, peerId2];
          combined = join '':'' sorted;
          data = uint8ArrayFromString combined;
          hashArray = sha256 data;
          hashHex = concat (map hex2 hashArray)
      in take 16 hashHex)"

text \<open>
  The example \<^verbatim>\<open>browser-node\<close> program of the repository has its own room identifier,
  from a 32-bit hash with a seed:
  \<^verbatim>\<open>
  function xxHash32(data, seed = 0) {
    let h32 = (seed + 0x165667B1) >>> 0;
    for (let i = 0; i < data.length; i++) {
      h32 = Math.imul(h32 ^ data.charCodeAt(i), 0x85EBCA6B);
    }
    h32 ^= data.length;
    h32 = Math.imul(h32 ^ (h32 >>> 16), 0x85EBCA6B);
    h32 = Math.imul(h32 ^ (h32 >>> 13), 0xC2B2AE35);
    return (h32 ^ (h32 >>> 16)) >>> 0;
  }
  \<close>
\<close>

definition xxHash32 :: "string \<Rightarrow> u32 \<Rightarrow> u32" where
  "xxHash32 data seed =
     (let h0 = seed + 0x165667B1;
          h1 = foldl (\<lambda>h c. (h XOR of_nat (of_char c)) * 0x85EBCA6B) h0 data;
          h2 = h1 XOR of_nat (length data);
          h3 = (h2 XOR drop_bit 16 h2) * 0x85EBCA6B;
          h4 = (h3 XOR drop_bit 13 h3) * 0xC2B2AE35
      in h4 XOR drop_bit 16 h4)"

text \<open>
  The room identifier in the spec's words: sort the two peer identifiers, concatenate
  them with a separator, run a 32-bit hash twice with two different seeds, and
  concatenate the two hex-encoded outputs. The hash, the seeds and the separator are
  parameters.
\<close>

definition roomId_two_seeds ::
  "(string \<Rightarrow> u32 \<Rightarrow> u32) \<Rightarrow> u32 \<Rightarrow> u32 \<Rightarrow> string \<Rightarrow> string \<Rightarrow> string \<Rightarrow> string" where
  "roomId_two_seeds h seed1 seed2 sep peerA peerB =
     (let base = join sep (js_sort [peerA, peerB])
      in hex8 (h base seed1) @ hex8 (h base seed2))"


section \<open>Sessions and the protocol coordinator\<close>

type_synonym peer = string
type_synonym stream_id = nat
type_synonym session_ref = nat

datatype error =
    SessionInactive
  | TypeError
  | StorageFailed string
  | NotConnected peer
  | DialFailed string
  | InvalidPeerId string

text \<open>
  The errors the code throws: \<open>SessionInactive\<close> is \<^verbatim>\<open>Error('Session is not active')\<close>
  of \<^verbatim>\<open>ChatSession.send\<close>; \<open>TypeError\<close> is the runtime's error on a property of
  \<^verbatim>\<open>undefined\<close> or \<^verbatim>\<open>null\<close>; \<open>StorageFailed key\<close> is
  \<^verbatim>\<open>Error(`Failed to store ${key}: ...`)\<close> of \<^verbatim>\<open>Storage.set\<close>; \<open>NotConnected\<close> is
  \<^verbatim>\<open>Error(`Not connected to peer ${peerId}. Use /connect first.`)\<close>, \<open>DialFailed\<close>
  the transport's own error and \<open>InvalidPeerId\<close> the error of \<^verbatim>\<open>peerIdFromString\<close>
  on a string that is no peer identifier, all three thrown by \<^verbatim>\<open>openStream\<close>.
\<close>

subsection \<open>The Map of sessions\<close>

text \<open>
  A JavaScript \<^verbatim>\<open>Map\<close> iterates in insertion order, \<^verbatim>\<open>set\<close> on a key that is present
  replaces the value in place, and \<^verbatim>\<open>delete\<close> removes the entry.
\<close>

definition Map_get :: "('k \<times> 'v) list \<Rightarrow> 'k \<Rightarrow> 'v option" where
  "Map_get m k = map_of m k"

definition Map_has :: "('k \<times> 'v) list \<Rightarrow> 'k \<Rightarrow> bool" where
  "Map_has m k = (map_of m k \<noteq> None)"

fun Map_set :: "('k \<times> 'v) list \<Rightarrow> 'k \<Rightarrow> 'v \<Rightarrow> ('k \<times> 'v) list" where
  "Map_set [] k v = [(k, v)]"
| "Map_set ((k', v') # m) k v = (if k' = k then (k, v) # m else (k', v') # Map_set m k v)"

definition Map_delete :: "('k \<times> 'v) list \<Rightarrow> 'k \<Rightarrow> ('k \<times> 'v) list" where
  "Map_delete m k = filter (\<lambda>e. fst e \<noteq> k) m"

subsection \<open>ChatSession\<close>

text \<open>
  \<open>outbound\<close> is the queue of the \<^verbatim>\<open>pushable\<close>: the payloads pushed and not yet
  taken by the outbound pipe; \<open>outbound_ended\<close> records \<^verbatim>\<open>outbound.end()\<close>. The two
  callbacks of a session are always \<^verbatim>\<open>handleMessage\<close> and \<^verbatim>\<open>handleSessionClose\<close> of the
  protocol object that created it.
\<close>

record ChatSession =
  stream :: stream_id
  peerId :: peer
  outbound :: "byte list list"
  outbound_ended :: bool
  isActive :: bool
  seq :: nat

definition new_ChatSession :: "stream_id \<Rightarrow> peer \<Rightarrow> ChatSession" where
  "new_ChatSession strm p =
     \<lparr>stream = strm, peerId = p, outbound = [], outbound_ended = False, isActive = True, seq = 0\<rparr>"

text \<open>
  \<^verbatim>\<open>
  async send(message) {
    if (!this.isActive) {
      throw new Error('Session is not active');
    }
    try {
      const messageStr = JSON.stringify(message);
      console.log('...', messageStr.length);
      const data = uint8ArrayFromString(messageStr);
      this.outbound.push(data);
      this.seq++;
    } catch (error) {
      throw error;
    }
  }
  \<close>
  \<^verbatim>\<open>messageStr.length\<close> throws a \<^verbatim>\<open>TypeError\<close> when \<^verbatim>\<open>JSON.stringify\<close> returned
  \<^verbatim>\<open>undefined\<close>.
\<close>

definition send :: "ChatSession \<Rightarrow> jsval \<Rightarrow> error + ChatSession" where
  "send s message =
     (if \<not> isActive s then Inl SessionInactive
      else case JSON_stringify message of
             None \<Rightarrow> Inl TypeError
           | Some messageStr \<Rightarrow>
               Inr (s\<lparr>outbound := outbound s @ [uint8ArrayFromString messageStr],
                      seq := Suc (seq s)\<rparr>))"

definition handshake :: "peer \<Rightarrow> jsval" where
  "handshake ourPeerId =
     JObj [(''type'', JStr ''hello''),
           (''sender'', JStr ourPeerId),
           (''protocol_version'', JStr ''length-prefixed-v1''),
           (''capabilities'', JObj [(''v'', JNum 1), (''maxFrame'', JNum 131072)])]"

definition sendHandshake :: "ChatSession \<Rightarrow> peer \<Rightarrow> error + ChatSession" where
  "sendHandshake s ourPeerId = send s (handshake ourPeerId)"

subsection \<open>The protocol object and its environment\<close>

text \<open>
  \<open>Dialed strm\<close>: the transport returned a stream. \<open>DialError msg n\<close>: dialling threw
  \<open>msg\<close>, and the catch block of \<^verbatim>\<open>openStream\<close> then found \<open>n\<close> connections to the
  peer.
\<close>

datatype dial_outcome = Dialed stream_id | DialError string nat

text \<open>
  The state of a \<^verbatim>\<open>ChatProtocol\<close> object and of what it acts on. \<open>objects\<close> holds the
  \<^verbatim>\<open>ChatSession\<close> objects by reference, the references below \<open>next_ref\<close> being in
  use; \<open>sessions\<close> is \<^verbatim>\<open>this.sessions\<close>. \<open>emitted\<close> lists the events passed to the
  event emitter, \<open>warnings\<close> the \<^verbatim>\<open>console.warn\<close> calls, \<open>closed_streams\<close> the
  \<^verbatim>\<open>stream.close()\<close> calls, \<open>written\<close> the bytes written into each stream's sink, and
  \<open>localStorage\<close> the message arrays kept under each key. The answers of the
  environment are read from four sequences, each with the count of the answers
  taken so far: \<open>clock\<close> for \<^verbatim>\<open>Date.now()\<close>, \<open>rand\<close> for
  \<^verbatim>\<open>Math.random().toString(36).substring(2, 9)\<close>, \<open>setItem_throws\<close> for whether a
  \<^verbatim>\<open>localStorage.setItem\<close> call throws, and \<open>dial\<close> for the outcome of a dial.
  \<open>peerIdFromString_ok\<close> says which strings \<^verbatim>\<open>peerIdFromString\<close> of the package
  \<^verbatim>\<open>@libp2p/peer-id\<close> accepts, and \<open>node_connections\<close> is the number of connections
  of the node to any peer.
\<close>

record ChatProtocol =
  node_peerId :: peer
  sessions :: "(peer \<times> session_ref) list"
  objects :: "session_ref \<Rightarrow> ChatSession"
  next_ref :: session_ref
  emitted :: "(string \<times> jsval) list"
  warnings :: "(string \<times> jsval) list"
  closed_streams :: "stream_id list"
  written :: "stream_id \<Rightarrow> byte list"
  localStorage :: "string \<Rightarrow> jsval list option"
  clock :: "nat \<Rightarrow> int"
  clock_reads :: nat
  rand :: "nat \<Rightarrow> string"
  rand_reads :: nat
  setItem_throws :: "nat \<Rightarrow> bool"
  setItem_calls :: nat
  dial :: "nat \<Rightarrow> dial_outcome"
  dial_calls :: nat
  peerIdFromString_ok :: "string \<Rightarrow> bool"
  node_connections :: nat

definition new_ChatProtocol ::
  "peer \<Rightarrow> (nat \<Rightarrow> int) \<Rightarrow> (nat \<Rightarrow> string) \<Rightarrow> (nat \<Rightarrow> bool) \<Rightarrow> (nat \<Rightarrow> dial_outcome)
     \<Rightarrow> (string \<Rightarrow> bool) \<Rightarrow> nat \<Rightarrow> ChatProtocol" where
  "new_ChatProtocol self c rnd thr dl ok conns =
     \<lparr>node_peerId = self, sessions = [],
      objects = (\<lambda>r. (new_ChatSession 0 [])\<lparr>isActive := False\<rparr>), next_ref = 0,
      emitted = [], warnings = [], closed_streams = [], written = (\<lambda>s. []),
      localStorage = (\<lambda>k. None),
      clock = c, clock_reads = 0, rand = rnd, rand_reads = 0,
      setItem_throws = thr, setItem_calls = 0, dial = dl, dial_calls = 0,
      peerIdFromString_ok = ok, node_connections = conns\<rparr>"

definition emit :: "ChatProtocol \<Rightarrow> string \<Rightarrow> jsval \<Rightarrow> ChatProtocol" where
  "emit st eventName detail = st\<lparr>emitted := emitted st @ [(eventName, detail)]\<rparr>"

definition console_warn :: "ChatProtocol \<Rightarrow> string \<Rightarrow> jsval \<Rightarrow> ChatProtocol" where
  "console_warn st text v = st\<lparr>warnings := warnings st @ [(text, v)]\<rparr>"

definition Date_now :: "ChatProtocol \<Rightarrow> int \<times> ChatProtocol" where
  "Date_now st = (clock st (clock_reads st), st\<lparr>clock_reads := Suc (clock_reads st)\<rparr>)"

text \<open>
  \<^verbatim>\<open>
  generateEventId() {
    return `${Date.now()}_${Math.random().toString(36).substring(2, 9)}`;
  }
  \<close>
\<close>

definition generateEventId :: "ChatProtocol \<Rightarrow> string \<times> ChatProtocol" where
  "generateEventId st =
     (case Date_now st of (now, st1) \<Rightarrow>
        (show_int now @ ''_'' @ rand st1 (rand_reads st1),
         st1\<lparr>rand_reads := Suc (rand_reads st1)\<rparr>))"

subsection \<open>ChatHistoryStorage.addMessage\<close>

definition MAX_MESSAGES_PER_ROOM :: nat where
  "MAX_MESSAGES_PER_ROOM = 1000"

fun indexed :: "nat \<Rightarrow> jsval list \<Rightarrow> (string \<times> jsval) list" where
  "indexed i [] = []"
| "indexed i (x # xs) = (show_nat i, x) # indexed (Suc i) xs"

text \<open>The own enumerable properties that \<^verbatim>\<open>{...message}\<close> copies.\<close>

fun spread :: "jsval \<Rightarrow> (string \<times> jsval) list" where
  "spread (JObj fs) = fs"
| "spread (JArr xs) = indexed 0 xs"
| "spread (JStr s) = indexed 0 (map (\<lambda>c. JStr [c]) s)"
| "spread v = []"

text \<open>
  \<^verbatim>\<open>
  addMessage(roomId, message) {
    const historyKey = `history-${roomId}`;
    const messages = this.get(historyKey) || [];
    messages.push({ ...message, stored_at: Date.now() });
    if (messages.length > this.MAX_MESSAGES_PER_ROOM) {
      messages.splice(0, messages.length - this.MAX_MESSAGES_PER_ROOM);
    }
    this.set(historyKey, messages);
  }
  \<close>
  \<^verbatim>\<open>get\<close> and \<^verbatim>\<open>set\<close> of \<^verbatim>\<open>Storage\<close> read and write the item
  \<^verbatim>\<open>`${this.prefix}-${key}`\<close> of the local storage, with the prefix
  \<^verbatim>\<open>libp2p-chat\<close>; \<^verbatim>\<open>set\<close> throws when \<^verbatim>\<open>setItem\<close> does.
\<close>

text \<open>The entry \<^verbatim>\<open>{ ...message, stored_at }\<close> and the item of a room in the local storage.\<close>

definition stored_entry :: "jsval \<Rightarrow> int \<Rightarrow> jsval" where
  "stored_entry message stored_at = JObj (Map_set (spread message) ''stored_at'' (JNum stored_at))"

definition history_item :: "string \<Rightarrow> string" where
  "history_item roomId = ''libp2p-chat-'' @ ''history-'' @ roomId"

text \<open>\<^verbatim>\<open>this.get(historyKey) || []\<close>: the array stored for a room, empty when there is none.\<close>

definition stored_messages :: "ChatProtocol \<Rightarrow> string \<Rightarrow> jsval list" where
  "stored_messages st roomId =
     (case localStorage st (history_item roomId) of Some ms \<Rightarrow> ms | None \<Rightarrow> [])"

text \<open>The \<^verbatim>\<open>splice\<close> that keeps the last \<^verbatim>\<open>MAX_MESSAGES_PER_ROOM\<close> messages.\<close>

definition limit_history :: "jsval list \<Rightarrow> jsval list" where
  "limit_history messages =
     (if length messages > MAX_MESSAGES_PER_ROOM
      then drop (length messages - MAX_MESSAGES_PER_ROOM) messages
      else messages)"

definition addMessage :: "ChatProtocol \<Rightarrow> string \<Rightarrow> jsval \<Rightarrow> ChatProtocol \<times> (error + unit)" where
  "addMessage st roomId message =
     (let historyKey = ''history-'' @ roomId;
          messages = stored_messages st roomId
      in case Date_now st of (stored_at, st1) \<Rightarrow>
           let pushed = messages @ [stored_entry message stored_at];
               limited = limit_history pushed;
               throws = setItem_throws st1 (setItem_calls st1);
               st2 = st1\<lparr>setItem_calls := Suc (setItem_calls st1)\<rparr>
           in if throws then (st2, Inl (StorageFailed historyKey))
              else (st2\<lparr>localStorage := (localStorage st2)(history_item roomId \<mapsto> limited)\<rparr>,
                    Inr ()))"

subsection \<open>Closing a session\<close>

text \<open>
  \<^verbatim>\<open>
  handleSessionClose(peerId) {
    this.sessions.delete(peerId);
    this.emit('chat:disconnected', { peerId });
  }
  \<close>
\<close>

definition handleSessionClose :: "ChatProtocol \<Rightarrow> peer \<Rightarrow> ChatProtocol" where
  "handleSessionClose st p =
     emit (st\<lparr>sessions := Map_delete (sessions st) p\<rparr>)
       ''chat:disconnected'' (JObj [(''peerId'', JStr p)])"

text \<open>
  \<^verbatim>\<open>
  close() {
    if (!this.isActive) return;
    this.isActive = false;
    this.outbound.end();
    if (this.onClose) {
      this.onClose(this.peerId);
    }
  }
  \<close>
  for the session object with reference \<open>r\<close>.
\<close>

definition close :: "ChatProtocol \<Rightarrow> session_ref \<Rightarrow> ChatProtocol" where
  "close st r =
     (let s = objects st r in
      if \<not> isActive s then st
      else handleSessionClose
             (st\<lparr>objects := (objects st)(r := s\<lparr>isActive := False, outbound_ended := True\<rparr>)\<rparr>)
             (peerId s))"

definition closeSession :: "ChatProtocol \<Rightarrow> peer \<Rightarrow> ChatProtocol" where
  "closeSession st p = (case Map_get (sessions st) p of Some r \<Rightarrow> close st r | None \<Rightarrow> st)"

definition closeAllSessions :: "ChatProtocol \<Rightarrow> ChatProtocol" where
  "closeAllSessions st = foldl close st (map snd (sessions st))"

definition getActiveSessions :: "ChatProtocol \<Rightarrow> (peer \<times> session_ref) list" where
  "getActiveSessions st = filter (\<lambda>e. isActive (objects st (snd e))) (sessions st)"


subsection \<open>Accepting and opening streams\<close>

text \<open>
  \<^verbatim>\<open>
  async handleIncomingStream({ stream, connection }) {
    const peerId = connection.remotePeer.toString();
    // CRITICAL: Prevent duplicate sessions
    if (this.sessions.has(peerId)) {
      console.warn('Duplicate session attempt from:', peerId);
      await stream.close();
      return;
    }
    const session = new ChatSession(stream, peerId,
      this.handleMessage.bind(this), this.handleSessionClose.bind(this));
    this.sessions.set(peerId, session);
    await session.sendHandshake(this.node.peerId.toString());
    this.emit('chat:connected', { peerId });
  }
  \<close>
  Nothing is awaited between the test and \<^verbatim>\<open>sessions.set\<close>, so the function is one
  step of the state.
\<close>

definition handleIncomingStream ::
  "ChatProtocol \<Rightarrow> stream_id \<Rightarrow> peer \<Rightarrow> ChatProtocol \<times> (error + unit)" where
  "handleIncomingStream st strm p =
     (if Map_has (sessions st) p
      then ((console_warn st ''Duplicate session attempt from:'' (JStr p))
              \<lparr>closed_streams := closed_streams st @ [strm]\<rparr>, Inr ())
      else
        let r = next_ref st;
            session = new_ChatSession strm p;
            st1 = st\<lparr>objects := (objects st)(r := session), next_ref := Suc r,
                     sessions := Map_set (sessions st) p r\<rparr>
        in case sendHandshake session (node_peerId st1) of
             Inl e \<Rightarrow> (st1, Inl e)
           | Inr session' \<Rightarrow>
               (emit (st1\<lparr>objects := (objects st1)(r := session')\<rparr>)
                  ''chat:connected'' (JObj [(''peerId'', JStr p)]), Inr ()))"

text \<open>
  \<^verbatim>\<open>openStream(peerId)\<close> tests \<^verbatim>\<open>this.sessions.has(peerId)\<close> first and returns the
  session found. Otherwise it enters its \<^verbatim>\<open>try\<close> block, which awaits the import of
  the peer-id module, converts the string, and awaits the dial; other steps run
  while it waits:
  \<^verbatim>\<open>
    try {
      if (typeof peerId === 'string') {
        const { peerIdFromString } = await import('@libp2p/peer-id');
        peerIdObj = peerIdFromString(peerId);
      }
      ...
        stream = await this.node.dialProtocol(peerIdObj, CHAT_PROTOCOL);
      ...
      const session = new ChatSession(stream, peerId,
        this.handleMessage.bind(this), this.handleSessionClose.bind(this));
      this.sessions.set(peerId, session);
      await session.sendHandshake(this.node.peerId.toString());
      this.emit('chat:connected', { peerId });
      return session;
    } catch (error) {
      const checkPeerId = typeof peerId === 'string' ? peerIdObj : peerId;
      const connections = this.node.getConnections(checkPeerId);
      if (connections.length === 0) {
        throw new Error(`Not connected to peer ${peerId}. Use /connect first.`);
      }
      throw error;
    }
  \<close>
  \<open>openStream_try\<close> is this block, taken at the moment its last wait is over.
  When \<^verbatim>\<open>peerIdFromString\<close> throws, nothing is dialled, \<^verbatim>\<open>peerIdObj\<close> is still
  \<^verbatim>\<open>undefined\<close> in the catch block, and \<^verbatim>\<open>getConnections(undefined)\<close> returns the
  connections to all peers.
\<close>

definition openStream_try :: "ChatProtocol \<Rightarrow> peer \<Rightarrow> ChatProtocol \<times> (error + session_ref)" where
  "openStream_try st p =
     (if \<not> peerIdFromString_ok st p
      then (st, Inl (if node_connections st = 0 then NotConnected p else InvalidPeerId p))
      else
        let outcome = dial st (dial_calls st);
            st0 = st\<lparr>dial_calls := Suc (dial_calls st)\<rparr>
        in case outcome of
             DialError msg connections \<Rightarrow>
               (st0, Inl (if connections = 0 then NotConnected p else DialFailed msg))
           | Dialed strm \<Rightarrow>
               let r = next_ref st0;
                   session = new_ChatSession strm p;
                   st1 = st0\<lparr>objects := (objects st0)(r := session), next_ref := Suc r,
                             sessions := Map_set (sessions st0) p r\<rparr>
               in case sendHandshake session (node_peerId st1) of
                    Inl e \<Rightarrow> (st1, Inl e)
                  | Inr session' \<Rightarrow>
                      (emit (st1\<lparr>objects := (objects st1)(r := session')\<rparr>)
                         ''chat:connected'' (JObj [(''peerId'', JStr p)]), Inr r))"

text \<open>\<^verbatim>\<open>openStream\<close> when no other step runs while it waits.\<close>

definition openStream :: "ChatProtocol \<Rightarrow> peer \<Rightarrow> ChatProtocol \<times> (error + session_ref)" where
  "openStream st p =
     (case Map_get (sessions st) p of
        Some r \<Rightarrow> (st, Inr r)
      | None \<Rightarrow> openStream_try st p)"

subsection \<open>Sending chat messages\<close>

text \<open>
  \<^verbatim>\<open>
  async sendMessage(peerId, content, roomId) {
    let session = this.sessions.get(peerId);
    if (!session) {
      session = await this.openStream(peerId);
    }
    const message = {
      type: 'm.room.message',
      sender: this.node.peerId.toString(),
      room_id: roomId,
      origin_ts: Date.now(),
      seq: session.seq,
      event_id: this.generateEventId(),
      content: { msgtype: 'm.text', body: content }
    };
    await session.send(message);
    this.storage.addMessage(roomId, message);
    this.emit('message:sent', message);
    return message;
  }
  \<close>
  \<open>sendMessage_send\<close> builds the message for the session \<open>r\<close> and calls
  \<^verbatim>\<open>session.send\<close>, which runs to its end before \<^verbatim>\<open>sendMessage\<close> is suspended by
  the \<^verbatim>\<open>await\<close>; \<open>sendMessage_store\<close> is what follows the \<^verbatim>\<open>await\<close>.
\<close>

definition chat_message :: "peer \<Rightarrow> string \<Rightarrow> int \<Rightarrow> nat \<Rightarrow> string \<Rightarrow> string \<Rightarrow> jsval" where
  "chat_message sender roomId origin_ts sq event_id content =
     JObj [(''type'', JStr ''m.room.message''),
           (''sender'', JStr sender),
           (''room_id'', JStr roomId),
           (''origin_ts'', JNum origin_ts),
           (''seq'', JNum (int sq)),
           (''event_id'', JStr event_id),
           (''content'', JObj [(''msgtype'', JStr ''m.text''), (''body'', JStr content)])]"

definition sendMessage_send ::
  "ChatProtocol \<Rightarrow> session_ref \<Rightarrow> string \<Rightarrow> string \<Rightarrow> ChatProtocol \<times> jsval \<times> error option" where
  "sendMessage_send st r content roomId =
     (case Date_now st of (origin_ts, st1) \<Rightarrow>
      case generateEventId st1 of (event_id, st2) \<Rightarrow>
        let session = objects st2 r;
            message = chat_message (node_peerId st2) roomId origin_ts (seq session) event_id content
        in case send session message of
             Inl e \<Rightarrow> (st2, message, Some e)
           | Inr session' \<Rightarrow> (st2\<lparr>objects := (objects st2)(r := session')\<rparr>, message, None))"

definition sendMessage_store ::
  "ChatProtocol \<Rightarrow> string \<Rightarrow> jsval \<Rightarrow> error option \<Rightarrow> ChatProtocol \<times> (error + jsval)" where
  "sendMessage_store st roomId message thrown =
     (case thrown of
        Some e \<Rightarrow> (st, Inl e)
      | None \<Rightarrow>
          (case addMessage st roomId message of
             (st1, Inl e) \<Rightarrow> (st1, Inl e)
           | (st1, Inr u) \<Rightarrow> (emit st1 ''message:sent'' message, Inr message)))"

text \<open>
  Where a call of \<^verbatim>\<open>sendMessage\<close> is suspended when it first gives up control: after
  \<^verbatim>\<open>session.send\<close>, with the message and the error \<^verbatim>\<open>send\<close> threw, if any; or, without
  a session for the peer, in the dial of \<^verbatim>\<open>openStream\<close>.
\<close>

datatype pending = AwaitSend jsval "error option" | AwaitDial

definition sendMessage_start ::
  "ChatProtocol \<Rightarrow> peer \<Rightarrow> string \<Rightarrow> string \<Rightarrow> ChatProtocol \<times> pending" where
  "sendMessage_start st p content roomId =
     (case Map_get (sessions st) p of
        Some r \<Rightarrow>
          (case sendMessage_send st r content roomId of
             (st1, message, thrown) \<Rightarrow> (st1, AwaitSend message thrown))
      | None \<Rightarrow> (st, AwaitDial))"

definition sendMessage_resume ::
  "ChatProtocol \<Rightarrow> peer \<Rightarrow> string \<Rightarrow> string \<Rightarrow> pending \<Rightarrow> ChatProtocol \<times> (error + jsval)" where
  "sendMessage_resume st p content roomId pnd =
     (case pnd of
        AwaitSend message thrown \<Rightarrow> sendMessage_store st roomId message thrown
      | AwaitDial \<Rightarrow>
          (case openStream_try st p of
             (st1, Inl e) \<Rightarrow> (st1, Inl e)
           | (st1, Inr r) \<Rightarrow>
               (case sendMessage_send st1 r content roomId of
                  (st2, message, thrown) \<Rightarrow> sendMessage_store st2 roomId message thrown)))"

definition sendMessage ::
  "ChatProtocol \<Rightarrow> peer \<Rightarrow> string \<Rightarrow> string \<Rightarrow> ChatProtocol \<times> (error + jsval)" where
  "sendMessage st p content roomId =
     (case sendMessage_start st p content roomId of
        (st1, pnd) \<Rightarrow> sendMessage_resume st1 p content roomId pnd)"

text \<open>
  \<^verbatim>\<open>
  async broadcast(content, roomId) {
    const promises = [];
    for (const [peerId, session] of this.sessions) {
      if (session.isActive) {
        promises.push(this.sendMessage(peerId, content, roomId));
      }
    }
    await Promise.allSettled(promises);
  }
  \<close>
  The loop starts one call of \<^verbatim>\<open>sendMessage\<close> for each active session; each call
  runs until its first \<^verbatim>\<open>await\<close> (\<open>broadcast_calls\<close>). The calls then go on, in
  the order in which they were started, and \<^verbatim>\<open>Promise.allSettled\<close> takes the result
  of each, fulfilled or rejected (\<open>broadcast_settle\<close>). The model returns these
  results next to the state.
\<close>

fun broadcast_calls ::
  "ChatProtocol \<Rightarrow> (peer \<times> session_ref) list \<Rightarrow> string \<Rightarrow> string
     \<Rightarrow> ChatProtocol \<times> (peer \<times> pending) list" where
  "broadcast_calls st [] content roomId = (st, [])"
| "broadcast_calls st ((p, r) # entries) content roomId =
     (if isActive (objects st r)
      then (case sendMessage_start st p content roomId of
              (st1, pnd) \<Rightarrow>
                (case broadcast_calls st1 entries content roomId of
                   (st2, pnds) \<Rightarrow> (st2, (p, pnd) # pnds)))
      else broadcast_calls st entries content roomId)"

fun broadcast_settle ::
  "ChatProtocol \<Rightarrow> (peer \<times> pending) list \<Rightarrow> string \<Rightarrow> string
     \<Rightarrow> ChatProtocol \<times> (error + jsval) list" where
  "broadcast_settle st [] content roomId = (st, [])"
| "broadcast_settle st ((p, pnd) # pnds) content roomId =
     (case sendMessage_resume st p content roomId pnd of
        (st1, res) \<Rightarrow>
          (case broadcast_settle st1 pnds content roomId of
             (st2, results) \<Rightarrow> (st2, res # results)))"

definition broadcast ::
  "ChatProtocol \<Rightarrow> string \<Rightarrow> string \<Rightarrow> ChatProtocol \<times> (error + jsval) list" where
  "broadcast st content roomId =
     (case broadcast_calls st (sessions st) content roomId of
        (st1, pnds) \<Rightarrow> broadcast_settle st1 pnds content roomId)"

subsection \<open>Receiving\<close>

type_synonym handler = "ChatProtocol \<Rightarrow> jsval \<Rightarrow> peer \<Rightarrow> ChatProtocol \<times> (error + unit)"

text \<open>
  The handlers of \<^verbatim>\<open>registerMessageHandlers\<close>. A handler is called with a message
  whose \<^verbatim>\<open>type\<close> was read, so its own property reads do not throw.
  \<^verbatim>\<open>
    this.messageHandlers.set('hello', async (message, peerId) => {
      this.emit('peer:handshake', { peerId, capabilities: message.capabilities });
    });
    this.messageHandlers.set('m.room.message', async (message, peerId) => {
      this.storage.addMessage(message.room_id, message);
      this.emit('message:received', message);
    });
    this.messageHandlers.set('m.typing', async (message, peerId) => {
      this.emit('peer:typing', { peerId, typing: message.typing });
    });
    this.messageHandlers.set('m.nickname', async (message, peerId) => {
      this.emit('peer:nickname', { peerId, nickname: message.nickname });
    });
  \<close>
\<close>

definition read_prop :: "jsval \<Rightarrow> string \<Rightarrow> jsval" where
  "read_prop v k = (case get_prop v k of Some x \<Rightarrow> x | None \<Rightarrow> JUndefined)"

definition hello_handler :: handler where
  "hello_handler st message p =
     (emit st ''peer:handshake''
        (JObj [(''peerId'', JStr p), (''capabilities'', read_prop message ''capabilities'')]),
      Inr ())"

definition room_message_handler :: handler where
  "room_message_handler st message p =
     (case addMessage st (String_of (read_prop message ''room_id'')) message of
        (st1, Inl e) \<Rightarrow> (st1, Inl e)
      | (st1, Inr u) \<Rightarrow> (emit st1 ''message:received'' message, Inr ()))"

definition typing_handler :: handler where
  "typing_handler st message p =
     (emit st ''peer:typing''
        (JObj [(''peerId'', JStr p), (''typing'', read_prop message ''typing'')]),
      Inr ())"

definition nickname_handler :: handler where
  "nickname_handler st message p =
     (emit st ''peer:nickname''
        (JObj [(''peerId'', JStr p), (''nickname'', read_prop message ''nickname'')]),
      Inr ())"

definition registerMessageHandlers :: "(string \<times> handler) list" where
  "registerMessageHandlers =
     [(''hello'', hello_handler),
      (''m.room.message'', room_message_handler),
      (''m.typing'', typing_handler),
      (''m.nickname'', nickname_handler)]"

text \<open>\<^verbatim>\<open>this.messageHandlers.get(v)\<close>: only a string is a key of the map.\<close>

fun messageHandlers_get :: "jsval \<Rightarrow> handler option" where
  "messageHandlers_get (JStr k) = Map_get registerMessageHandlers k"
| "messageHandlers_get v = None"

text \<open>
  \<^verbatim>\<open>
  async handleMessage(message, peerId) {
    console.log('Received message:', message.type, 'from', peerId);
    const handler = this.messageHandlers.get(message.type);
    if (handler) {
      await handler(message, peerId);
    } else {
      console.warn('Unknown message type:', message.type);
    }
  }
  \<close>
\<close>

definition handleMessage :: handler where
  "handleMessage st message p =
     (case get_prop message ''type'' of
        None \<Rightarrow> (st, Inl TypeError)
      | Some t \<Rightarrow>
          (case messageHandlers_get t of
             Some handler \<Rightarrow> handler st message p
           | None \<Rightarrow> (console_warn st ''Unknown message type:'' t, Inr ())))"

text \<open>
  What the inbound pipe of \<^verbatim>\<open>handleStream\<close> meets: a frame whose text
  \<^verbatim>\<open>JSON.parse\<close> accepts, a frame that it rejects, or the end (or failure) of the
  stream.
  \<^verbatim>\<open>
          for await (const data of source) {
            try {
              const message = uint8ArrayToString(data.subarray());
              const parsed = JSON.parse(message);
              if (this.onMessage) {
                await this.onMessage(parsed, this.peerId);
              }
            } catch (error) {
              console.error('Message parse error:', error);
            }
          }
    ...
    } finally {
      this.close();
    }
  \<close>
\<close>

datatype inbound = Parsed jsval | Unparsable | StreamEnd

definition handleStream_inbound :: "ChatProtocol \<Rightarrow> session_ref \<Rightarrow> inbound \<Rightarrow> ChatProtocol" where
  "handleStream_inbound st r i =
     (case i of
        Parsed parsed \<Rightarrow> fst (handleMessage st parsed (peerId (objects st r)))
      | Unparsable \<Rightarrow> st
      | StreamEnd \<Rightarrow> close st r)"

text \<open>
  One step of the outbound pipe
  \<^verbatim>\<open>pipe(this.outbound, lp.encode, this.stream.sink).catch(err => { this.close(); })\<close>:
  the next payload of the queue is framed and written to the sink; when the encoder
  throws or the write fails, the pipe rejects and its handler closes the session.
\<close>

definition handleStream_outbound :: "ChatProtocol \<Rightarrow> session_ref \<Rightarrow> bool \<Rightarrow> ChatProtocol" where
  "handleStream_outbound st r write_ok =
     (let s = objects st r in
      case outbound s of
        [] \<Rightarrow> st
      | payload # queue \<Rightarrow>
          if length payload > MAX_DATA_LENGTH then close st r
          else if write_ok
          then st\<lparr>objects := (objects st)(r := s\<lparr>outbound := queue\<rparr>),
                  written := (written st)(stream s := written st (stream s) @ lp_encode payload)\<rparr>
          else close st r)"


subsection \<open>What a broadcast produces\<close>

text \<open>
  The chat messages of a broadcast over the entries \<open>es\<close> of the registry, one for
  each active session, in the order of the entries. Each message takes its own
  reading of the clock as \<^verbatim>\<open>origin_ts\<close>, the sequence number of its session, and an
  event identifier made of the next reading of the clock and the next random
  suffix; \<open>cr\<close> and \<open>rr\<close> count the readings taken before.
\<close>

fun broadcast_messages ::
  "peer \<Rightarrow> (nat \<Rightarrow> int) \<Rightarrow> (nat \<Rightarrow> string) \<Rightarrow> (session_ref \<Rightarrow> ChatSession) \<Rightarrow> nat \<Rightarrow> nat
     \<Rightarrow> (peer \<times> session_ref) list \<Rightarrow> string \<Rightarrow> string \<Rightarrow> jsval list" where
  "broadcast_messages self clk rnd objs cr rr [] content roomId = []"
| "broadcast_messages self clk rnd objs cr rr ((p, r) # es) content roomId =
     (if isActive (objs r)
      then chat_message self roomId (clk cr) (seq (objs r))
             (show_int (clk (Suc cr)) @ ''_'' @ rnd rr) content
             # broadcast_messages self clk rnd objs (Suc (Suc cr)) (Suc rr) es content roomId
      else broadcast_messages self clk rnd objs cr rr es content roomId)"

text \<open>
  What becomes of the messages once their sends are over, the writes of the storage
  being counted from \<open>k\<close>: the result of each call of \<^verbatim>\<open>sendMessage\<close>, the
  \<^verbatim>\<open>message:sent\<close> events, and the entries added to the history of the room, each
  with the reading of the clock that \<^verbatim>\<open>addMessage\<close> takes (counted from \<open>cr\<close>). A
  message whose write throws is rejected, and has no event and no entry.
\<close>

fun broadcast_results :: "(nat \<Rightarrow> bool) \<Rightarrow> nat \<Rightarrow> string \<Rightarrow> jsval list \<Rightarrow> (error + jsval) list" where
  "broadcast_results thr k roomId [] = []"
| "broadcast_results thr k roomId (m # ms) =
     (if thr k then Inl (StorageFailed (''history-'' @ roomId)) else Inr m)
       # broadcast_results thr (Suc k) roomId ms"

fun broadcast_events :: "(nat \<Rightarrow> bool) \<Rightarrow> nat \<Rightarrow> jsval list \<Rightarrow> (string \<times> jsval) list" where
  "broadcast_events thr k [] = []"
| "broadcast_events thr k (m # ms) =
     (if thr k then [] else [(''message:sent'', m)]) @ broadcast_events thr (Suc k) ms"

fun broadcast_entries :: "(nat \<Rightarrow> int) \<Rightarrow> (nat \<Rightarrow> bool) \<Rightarrow> nat \<Rightarrow> nat \<Rightarrow> jsval list \<Rightarrow> jsval list" where
  "broadcast_entries clk thr cr k [] = []"
| "broadcast_entries clk thr cr k (m # ms) =
     (if thr k then [] else [stored_entry m (clk cr)])
       @ broadcast_entries clk thr (Suc cr) (Suc k) ms"

subsection \<open>Example states\<close>

text \<open>
  A peer identifier that \<^verbatim>\<open>peerIdFromString\<close> accepts: \<^verbatim>\<open>TARGET_PEER_ID\<close> of the
  repository's browser example.
\<close>

definition TARGET_PEER_ID :: peer where
  "TARGET_PEER_ID = ''12D3KooWRpruuUZiWpTtmdELbwMYUbUDUzDt3e1q6Tbueg6np6ih''"

text \<open>
  A protocol object of the peer \<^verbatim>\<open>QmSelf\<close> with no session, whose clock starts at
  1000 and advances by one at each reading, whose storage never fails and whose
  dials return the streams 2, 3, ... Of the strings used below,
  \<^verbatim>\<open>peerIdFromString\<close> accepts \<open>TARGET_PEER_ID\<close> only, and the node has one
  connection.
\<close>

definition example_protocol :: ChatProtocol where
  "example_protocol =
     new_ChatProtocol ''QmSelf'' (\<lambda>n. 1000 + int n) (\<lambda>n. ''k3j9x2a'') (\<lambda>n. False)
       (\<lambda>n. Dialed (2 + n)) (\<lambda>p. p = TARGET_PEER_ID) 1"

text \<open>The same object after the inbound stream 1 of the peer \<^verbatim>\<open>QmPeerC\<close> was accepted.\<close>

definition after_inbound :: ChatProtocol where
  "after_inbound = fst (handleIncomingStream example_protocol 1 ''QmPeerC'')"

text \<open>
  The object \<open>example_protocol\<close> after the inbound stream 1 of the peer
  \<open>TARGET_PEER_ID\<close> was accepted.
\<close>

definition target_inbound :: ChatProtocol where
  "target_inbound = fst (handleIncomingStream example_protocol 1 TARGET_PEER_ID)"

text \<open>
  A call \<^verbatim>\<open>openStream(TARGET_PEER_ID)\<close> that found no session in \<open>example_protocol\<close>
  and was waiting for its dial while that inbound stream was accepted, at the moment
  the dial has returned the stream 2.
\<close>

definition after_race :: ChatProtocol where
  "after_race = fst (openStream_try target_inbound TARGET_PEER_ID)"

text \<open>
  A session on the stream 1 whose queue holds the payload \<^verbatim>\<open>{}\<close>, as the raw send of
  the debug panel (\<^verbatim>\<open>session.send(JSON.parse(messageText))\<close>) leaves it.
\<close>

definition raw_queued :: ChatProtocol where
  "raw_queued =
     example_protocol\<lparr>objects := (objects example_protocol)
       (0 := (new_ChatSession 1 ''QmPeerB'')\<lparr>outbound := [[123, 125]], seq := 1\<rparr>)\<rparr>"

text \<open>
  The object \<open>example_protocol\<close> after the inbound streams 1, 2 and 3 of three peers
  were accepted; the same with a storage whose first write fails; and
  \<open>after_inbound\<close> with a storage whose writes all fail.
\<close>

definition three_sessions :: ChatProtocol where
  "three_sessions =
     fst (handleIncomingStream
       (fst (handleIncomingStream
         (fst (handleIncomingStream example_protocol 1 ''QmPeer1'')) 2 ''QmPeer2'')) 3 ''QmPeer3'')"

definition first_write_fails :: ChatProtocol where
  "first_write_fails = three_sessions\<lparr>setItem_throws := (\<lambda>n. n = 0)\<rparr>"

definition storage_full :: ChatProtocol where
  "storage_full = after_inbound\<lparr>setItem_throws := (\<lambda>n. True)\<rparr>"

section \<open>Properties\<close>

subsection \<open>Room identifier\<close>

lemma js_less_asym: "js_less a b \<Longrightarrow> \<not> js_less b a"
  by (induction a b rule: js_less.induct) (auto split: if_splits)

lemma js_less_total: "\<not> js_less a b \<Longrightarrow> \<not> js_less b a \<Longrightarrow> a = b"
  by (induction a b rule: js_less.induct) (auto split: if_splits)

lemma js_sort_pair: "js_sort [a, b] = (if js_less b a then [b, a] else [a, b])"
  by (simp add: js_sort_def)

lemma js_sort_pair_sym: "js_sort [a, b] = js_sort [b, a]"
  using js_less_asym js_less_total by (auto simp: js_sort_pair)

text \<open>
  C4. The room identifier does not depend on the order of the two peer identifiers.
  It is a function of the two identifiers alone (no clock and no random number is
  read), so two calls with the same unordered pair return the same identifier.
\<close>

theorem generateRoomId_symmetric: "generateRoomId a b = generateRoomId b a"
  by (simp add: generateRoomId_def js_sort_pair_sym)

lemma length_be32: "length (be32 w) = 4"
  by (simp add: be32_def)

lemma length_sha_out: "length (sha_out s) = 32"
  by (cases s rule: sha_out.cases) (simp add: length_be32)

lemma length_sha256: "length (sha256 m) = 32"
  by (simp add: sha256_def Let_def length_sha_out)

lemma take_hex2: "take (2 * n) (concat (map hex2 xs)) = concat (map hex2 (take n xs))"
proof (induction xs arbitrary: n)
  case Nil
  then show ?case by simp
next
  case (Cons x xs)
  show ?case
  proof (cases n)
    case 0
    then show ?thesis by simp
  next
    case (Suc k)
    then show ?thesis using Cons.IH [of k] by (simp add: hex2_def)
  qed
qed

lemma length_hex2s: "length (concat (map hex2 xs)) = 2 * length xs"
  by (induction xs) (simp_all add: hex2_def)

lemma roomId_QmPeer: "generateRoomId ''QmPeerA'' ''QmPeerB'' = ''73be3e46c40be7d9''"
  by code_simp

lemma two_seeds_QmPeer:
  "roomId_two_seeds xxHash32 0 0x9e3779b9 '':'' ''QmPeerA'' ''QmPeerB'' = ''27287363c05dfe71''"
  by code_simp

text \<open>
  C5, as stated, fails: for the peers \<^verbatim>\<open>QmPeerA\<close> and \<^verbatim>\<open>QmPeerB\<close> the identifier that
  \<^verbatim>\<open>generateRoomId\<close> returns is not the concatenation of two hex-encoded 32-bit hashes
  of the joined identifiers under two seeds, taken with the seeded 32-bit hash of the
  repository (\<^verbatim>\<open>xxHash32\<close>, seeds 0 and 0x9e3779b9).
\<close>

theorem generateRoomId_not_two_seed_hash:
  "generateRoomId ''QmPeerA'' ''QmPeerB'' = ''73be3e46c40be7d9'' \<and>
   roomId_two_seeds xxHash32 0 0x9e3779b9 '':'' ''QmPeerA'' ''QmPeerB'' = ''27287363c05dfe71'' \<and>
   generateRoomId ''QmPeerA'' ''QmPeerB''
     \<noteq> roomId_two_seeds xxHash32 0 0x9e3779b9 '':'' ''QmPeerA'' ''QmPeerB''"
  by (simp add: roomId_QmPeer two_seeds_QmPeer)

text \<open>
  C5, amended. The room identifier is computed by sorting the two identifiers,
  joining them with a colon, taking the SHA-256 digest of the UTF-8 bytes once, and
  hex-encoding the first 8 bytes of the digest: a string of 16 characters.
\<close>

theorem generateRoomId_sha256_prefix:
  "generateRoomId a b =
     concat (map hex2 (take 8 (sha256 (uint8ArrayFromString (join '':'' (js_sort [a, b])))))) \<and>
   length (generateRoomId a b) = 16"
proof -
  let ?d = "sha256 (uint8ArrayFromString (join '':'' (js_sort [a, b])))"
  have eq: "generateRoomId a b = concat (map hex2 (take 8 ?d))"
    using take_hex2 [of 8 ?d] by (simp add: generateRoomId_def Let_def)
  have "length (concat (map hex2 (take 8 ?d))) = 16"
    by (simp add: length_hex2s length_sha256)
  with eq show ?thesis by simp
qed

subsection \<open>ChatSession.send\<close>

lemma stringify_None_iff: "JSON_stringify m = None \<longleftrightarrow> m = JUndefined"
  by (cases m) simp_all

lemma js_value_handshake: "js_value (handshake p)"
  by (simp add: handshake_def keys_ordered_def array_index_def is_digit_def
      MAX_SAFE_INTEGER_def)

lemma stringify_handshake_QmSelf:
  "JSON_stringify (handshake ''QmSelf'') =
     Some (''{'' @ quote ''type'' @ '':'' @ quote ''hello'' @ '','' @
           quote ''sender'' @ '':'' @ quote ''QmSelf'' @ '','' @
           quote ''protocol_version'' @ '':'' @ quote ''length-prefixed-v1'' @ '','' @
           quote ''capabilities'' @ '':'' @
             (''{'' @ quote ''v'' @ '':1,'' @ quote ''maxFrame'' @ '':131072}'') @ ''}'')"
  by (simp add: handshake_def show_int_def show_nat.simps digit_char_def char_of_def bit_0)

text \<open>
  C8. \<^verbatim>\<open>send\<close> fails with \<open>SessionInactive\<close> exactly when the session is not
  active. On an active session it appends the envelope to the outbound queue, as the
  UTF-8 bytes of its \<^verbatim>\<open>JSON.stringify\<close> text, and counts it (for any value but
  \<^verbatim>\<open>undefined\<close>); nothing else of the session is read, no handshake state among it,
  and nothing is written to the stream.
\<close>

theorem send_fails_iff_inactive:
  "(send s m = Inl SessionInactive \<longleftrightarrow> \<not> isActive s) \<and>
   (isActive s \<longrightarrow> js_value m \<longrightarrow> m \<noteq> JUndefined \<longrightarrow>
      (\<exists>json. JSON_stringify m = Some json \<and>
         send s m = Inr (s\<lparr>outbound := outbound s @ [uint8ArrayFromString json],
                             seq := Suc (seq s)\<rparr>)))"
  by (cases "JSON_stringify m") (auto simp: send_def stringify_None_iff)

theorem send_fails_iff_inactive_witness:
  "isActive (new_ChatSession 1 ''QmPeerB'') \<and> js_value (handshake ''QmSelf'') \<and>
   handshake ''QmSelf'' \<noteq> JUndefined \<and>
   send (new_ChatSession 1 ''QmPeerB'') (handshake ''QmSelf'') =
     Inr ((new_ChatSession 1 ''QmPeerB'')
       \<lparr>outbound := [uint8ArrayFromString
           (''{'' @ quote ''type'' @ '':'' @ quote ''hello'' @ '','' @
            quote ''sender'' @ '':'' @ quote ''QmSelf'' @ '','' @
            quote ''protocol_version'' @ '':'' @ quote ''length-prefixed-v1'' @ '','' @
            quote ''capabilities'' @ '':'' @
              (''{'' @ quote ''v'' @ '':1,'' @ quote ''maxFrame'' @ '':131072}'') @ ''}'')],
        seq := 1\<rparr>) \<and>
   send ((new_ChatSession 1 ''QmPeerB'')\<lparr>isActive := False\<rparr>) (handshake ''QmSelf'')
     = Inl SessionInactive"
proof -
  have act: "isActive (new_ChatSession 1 ''QmPeerB'')"
    and q: "outbound (new_ChatSession 1 ''QmPeerB'') = []"
    and sq: "seq (new_ChatSession 1 ''QmPeerB'') = 0"
    by (simp_all add: new_ChatSession_def)
  have ne: "handshake ''QmSelf'' \<noteq> JUndefined"
    by (simp add: handshake_def)
  show ?thesis
    using send_fails_iff_inactive [of "new_ChatSession 1 ''QmPeerB''" "handshake ''QmSelf''"]
      send_fails_iff_inactive [of "(new_ChatSession 1 ''QmPeerB'')\<lparr>isActive := False\<rparr>"
        "handshake ''QmSelf''"]
      act q sq ne js_value_handshake [of "''QmSelf''"] stringify_handshake_QmSelf
    by simp
qed

subsection \<open>One session for each peer\<close>

text \<open>
  What holds of the registry: its keys stay distinct, a duplicate inbound stream is
  closed and leaves the registry, the sessions and the events as they were, and
  \<^verbatim>\<open>openStream\<close> returns the session that its test finds.
\<close>

lemma Map_set_keys: "set (map fst (Map_set m k v)) = insert k (set (map fst m))"
proof (induction m)
  case Nil
  then show ?case by simp
next
  case (Cons e m)
  obtain k' v' where e: "e = (k', v')" by (cases e)
  show ?case
  proof (cases "k' = k")
    case True
    then show ?thesis unfolding e by simp
  next
    case False
    then show ?thesis unfolding e using Cons.IH by (simp add: insert_commute)
  qed
qed

lemma Map_set_distinct: "distinct (map fst m) \<Longrightarrow> distinct (map fst (Map_set m k v))"
proof (induction m)
  case Nil
  then show ?case by simp
next
  case (Cons e m)
  obtain k' v' where e: "e = (k', v')" by (cases e)
  have keys: "set (map fst (Map_set m k v)) = insert k (set (map fst m))"
    by (rule Map_set_keys)
  show ?case
  proof (cases "k' = k")
    case True
    then show ?thesis using Cons.prems e by simp
  next
    case False
    have "k' \<notin> set (map fst (Map_set m k v))"
      unfolding keys using False Cons.prems e by simp
    then show ?thesis using Cons e False by simp
  qed
qed

lemma handleIncomingStream_duplicate:
  assumes "Map_has (sessions st) p"
  shows "sessions (fst (handleIncomingStream st strm p)) = sessions st \<and>
         objects (fst (handleIncomingStream st strm p)) = objects st \<and>
         emitted (fst (handleIncomingStream st strm p)) = emitted st \<and>
         closed_streams (fst (handleIncomingStream st strm p)) = closed_streams st @ [strm]"
  using assms by (simp add: handleIncomingStream_def console_warn_def)

lemma openStream_existing:
  "Map_get (sessions st) p = Some r \<Longrightarrow> openStream st p = (st, Inr r)"
  by (simp add: openStream_def)

lemma handleIncomingStream_keys_distinct:
  "distinct (map fst (sessions st)) \<Longrightarrow>
     distinct (map fst (sessions (fst (handleIncomingStream st strm p))))"
  by (auto simp: handleIncomingStream_def console_warn_def Let_def emit_def Map_set_distinct
      split: sum.splits)

lemma openStream_invalid_peer:
  "\<not> Map_has (sessions st) p \<Longrightarrow> \<not> peerIdFromString_ok st p \<Longrightarrow>
     fst (openStream st p) = st \<and>
     snd (openStream st p) = Inl (if node_connections st = 0 then NotConnected p else InvalidPeerId p)"
  by (simp add: openStream_def openStream_try_def Map_has_def Map_get_def)

text \<open>
  C1 fails on the code. \<^verbatim>\<open>openStream\<close> is called for \<open>TARGET_PEER_ID\<close>, a string
  that \<^verbatim>\<open>peerIdFromString\<close> accepts; it finds no session and dials. While it waits,
  the inbound stream 1 of the same peer arrives and \<^verbatim>\<open>handleIncomingStream\<close> registers
  the session 0. When the dial returns the stream 2, \<^verbatim>\<open>openStream\<close> registers the
  session 1 for the same peer without a second test. Both sessions are active, on
  different streams, and no stream was closed. When the first session is closed
  later, the entry of the second one is deleted although that session is still
  active.
\<close>

theorem openStream_race_second_session:
  "peerIdFromString_ok example_protocol TARGET_PEER_ID \<and>
   \<not> Map_has (sessions example_protocol) TARGET_PEER_ID \<and>
   Map_get (sessions target_inbound) TARGET_PEER_ID = Some 0 \<and>
   Map_get (sessions after_race) TARGET_PEER_ID = Some 1 \<and>
   isActive (objects after_race 0) \<and> peerId (objects after_race 0) = TARGET_PEER_ID \<and>
   stream (objects after_race 0) = 1 \<and>
   isActive (objects after_race 1) \<and> peerId (objects after_race 1) = TARGET_PEER_ID \<and>
   stream (objects after_race 1) = 2 \<and>
   closed_streams after_race = [] \<and>
   \<not> Map_has (sessions (close after_race 0)) TARGET_PEER_ID \<and>
   isActive (objects (close after_race 0) 1)"
  by (simp add: after_race_def target_inbound_def example_protocol_def handleIncomingStream_def
      openStream_try_def new_ChatProtocol_def Map_has_def Map_get_def Map_delete_def
      sendHandshake_def send_def handshake_def new_ChatSession_def emit_def Let_def
      close_def handleSessionClose_def)

subsection \<open>Closing\<close>

lemma Map_has_delete: "\<not> Map_has (Map_delete m k) k"
  by (auto simp: Map_has_def Map_delete_def map_of_eq_None_iff)

text \<open>
  C6. Closing is idempotent. The first call of \<^verbatim>\<open>close\<close> on an active session marks
  it inactive, ends the outbound queue and calls the close callback, which removes
  the peer from the registry and emits one \<^verbatim>\<open>chat:disconnected\<close> event. A call on an
  inactive session changes nothing, so closing twice in a row leaves exactly that
  one event.
\<close>

theorem close_idempotent:
  "(\<not> isActive (objects st r) \<longrightarrow> close st r = st) \<and>
   (isActive (objects st r) \<longrightarrow>
      \<not> isActive (objects (close st r) r) \<and>
      outbound_ended (objects (close st r) r) \<and>
      \<not> Map_has (sessions (close st r)) (peerId (objects st r)) \<and>
      emitted (close st r) =
        emitted st @ [(''chat:disconnected'', JObj [(''peerId'', JStr (peerId (objects st r)))])] \<and>
      close (close st r) r = close st r \<and>
      emitted (close (close st r) r) =
        emitted st @ [(''chat:disconnected'', JObj [(''peerId'', JStr (peerId (objects st r)))])])"
  by (simp add: close_def handleSessionClose_def emit_def Let_def Map_has_delete)

theorem close_idempotent_witness:
  "isActive (objects after_inbound 0) \<and>
   \<not> isActive (objects (close after_inbound 0) 0) \<and>
   emitted (close after_inbound 0) =
     [(''chat:connected'', JObj [(''peerId'', JStr ''QmPeerC'')]),
      (''chat:disconnected'', JObj [(''peerId'', JStr ''QmPeerC'')])] \<and>
   close (close after_inbound 0) 0 = close after_inbound 0 \<and>
   emitted (close (close after_inbound 0) 0) =
     [(''chat:connected'', JObj [(''peerId'', JStr ''QmPeerC'')]),
      (''chat:disconnected'', JObj [(''peerId'', JStr ''QmPeerC'')])]"
proof -
  have active: "isActive (objects after_inbound 0)"
    and peer: "peerId (objects after_inbound 0) = ''QmPeerC''"
    and events: "emitted after_inbound = [(''chat:connected'', JObj [(''peerId'', JStr ''QmPeerC'')])]"
    by (simp_all add: after_inbound_def example_protocol_def handleIncomingStream_def
        new_ChatProtocol_def Map_has_def sendHandshake_def send_def handshake_def
        new_ChatSession_def emit_def Let_def)
  show ?thesis
    using close_idempotent [of after_inbound 0] active peer events by simp
qed


subsection \<open>Frames\<close>

lemma varint_decode_varint:
  "0 < k \<Longrightarrow> n < 128 ^ k \<Longrightarrow> varint_decode k (varint n @ rest) = Some (n, rest)"
proof (induction k arbitrary: n)
  case 0
  then show ?case by simp
next
  case (Suc k)
  show ?case
  proof (cases "n < 128")
    case True
    then have "unat (of_nat n :: byte) = n"
      by (simp add: unat_of_nat)
    then show ?thesis
      using True by (simp add: varint.simps [of n])
  next
    case False
    have "n mod 128 + 128 < 2 ^ LENGTH(8)"
      by simp
    then have b: "unat (of_nat (n mod 128 + 128) :: byte) = n mod 128 + 128"
      by (simp only: unat_of_nat take_bit_nat_eq_self mod_less)
    have pos: "0 < k"
      using False Suc.prems(2) by (cases k) simp_all
    have "n div 128 < 128 ^ k"
      using Suc.prems(2) by (simp add: less_mult_imp_div_less mult.commute)
    from Suc.IH [OF pos this]
    have "varint_decode k (varint (n div 128) @ rest) = Some (n div 128, rest)" .
    then show ?thesis
      using False b by (simp add: varint.simps [of n])
  qed
qed

lemma lp_decode_encode:
  assumes "length payload \<le> MAX_DATA_LENGTH"
  shows "lp_decode_frame (varint (length payload) @ payload @ rest) = Some (payload, rest)"
proof -
  have "length payload < 128 ^ MAX_LENGTH_LENGTH"
    using assms by (simp add: MAX_DATA_LENGTH_def MAX_LENGTH_LENGTH_def)
  then have "varint_decode MAX_LENGTH_LENGTH (varint (length payload) @ payload @ rest)
               = Some (length payload, payload @ rest)"
    by (intro varint_decode_varint) (simp_all add: MAX_LENGTH_LENGTH_def)
  then show ?thesis
    using assms by (simp add: lp_decode_frame_def)
qed

text \<open>
  C2, as stated, fails. \<^verbatim>\<open>send\<close> accepts the message \<^verbatim>\<open>{}\<close>, which has no
  \<^verbatim>\<open>type\<close>, and the outbound pipe writes its frame: one length byte and the two
  bytes of the payload, not the six bytes of a frame with a 4-byte length. The
  decoder reads that frame back, and a received \<^verbatim>\<open>{}\<close> is handed to the message
  handler like any other value.
\<close>

theorem send_accepts_message_without_type:
  "get_prop (JObj []) ''type'' = Some JUndefined \<and>
   js_value (JObj []) \<and>
   send (new_ChatSession 1 ''QmPeerB'') (JObj []) =
     Inr ((new_ChatSession 1 ''QmPeerB'')\<lparr>outbound := [[123, 125]], seq := 1\<rparr>) \<and>
   written (handleStream_outbound raw_queued 0 True) 1 = [2, 123, 125] \<and>
   spec_frame [123, 125] = [0, 0, 0, 2, 123, 125] \<and>
   lp_decode_frame [2, 123, 125] = Some ([123, 125], []) \<and>
   handleStream_inbound after_inbound 0 (Parsed (JObj [])) =
     console_warn after_inbound ''Unknown message type:'' JUndefined"
proof -
  have v: "varint (Suc (Suc 0)) = [2]"
    by (simp add: varint.simps [of "Suc (Suc 0)"])
  have len: "length [123, 125 :: byte] \<le> MAX_DATA_LENGTH"
    by (simp add: MAX_DATA_LENGTH_def)
  have a: "get_prop (JObj []) ''type'' = Some JUndefined"
    by simp
  have b: "js_value (JObj [])"
    by (simp add: keys_ordered_def)
  have c: "send (new_ChatSession 1 ''QmPeerB'') (JObj []) =
     Inr ((new_ChatSession 1 ''QmPeerB'')\<lparr>outbound := [[123, 125]], seq := 1\<rparr>)"
    by (simp add: send_def new_ChatSession_def uint8ArrayFromString_def utf8_char_def)
  have d: "written (handleStream_outbound raw_queued 0 True) 1 = [2, 123, 125]"
    using len v
    by (simp add: raw_queued_def example_protocol_def new_ChatProtocol_def
        new_ChatSession_def handleStream_outbound_def lp_encode_def Let_def)
  have e: "spec_frame [123, 125] = [0, 0, 0, 2, 123, 125]"
    by (simp add: spec_frame_def be32_def)
  have f: "lp_decode_frame [2, 123, 125] = Some ([123, 125], [])"
    using lp_decode_encode [OF len, of "[]"] v by simp
  have g: "handleStream_inbound after_inbound 0 (Parsed (JObj [])) =
     console_warn after_inbound ''Unknown message type:'' JUndefined"
    by (simp add: handleStream_inbound_def handleMessage_def)
  show ?thesis
    using a b c d e f g by blast
qed

lemma sendMessage_send_type:
  "sendMessage_send st r c room = (st', m, thrown) \<Longrightarrow>
     get_prop m ''type'' = Some (JStr ''m.room.message'')"
  by (auto simp: sendMessage_send_def chat_message_def Let_def split: prod.splits sum.splits)

lemma no_handler_without_string: "\<forall>k. t \<noteq> JStr k \<Longrightarrow> messageHandlers_get t = None"
  by (cases t) simp_all

text \<open>
  C2, amended. Every frame that the outbound pipe writes to a session's stream is the
  length of a payload as an unsigned varint (the default of the length-prefixed
  codec, not a 4-byte length) followed by that payload, for a payload of at most
  4 MiB, and the decoder of the reading side yields the payload of such a frame. The
  payload that \<^verbatim>\<open>send\<close> queues is the UTF-8 encoding of \<^verbatim>\<open>JSON.stringify(message)\<close>.
  The envelopes that \<^verbatim>\<open>sendHandshake\<close> and \<^verbatim>\<open>sendMessage\<close> build carry a string
  \<^verbatim>\<open>type\<close> at their top level. \<^verbatim>\<open>send\<close> itself asks for none, and neither does the
  reading side: a parsed value whose \<^verbatim>\<open>type\<close> is not a string goes to the message
  handler, which logs a warning and drops it.
\<close>

theorem frames_length_prefixed_json:
  assumes "outbound (objects st r) = payload # queue"
    and "length payload \<le> MAX_DATA_LENGTH"
    and "isActive s" and "js_value m" and "m \<noteq> JUndefined"
    and "sendMessage_send st2 r2 content roomId = (st3, message, thrown)"
    and "get_prop v ''type'' = Some t" and "\<forall>k. t \<noteq> JStr k"
  shows "written (handleStream_outbound st r True) (stream (objects st r))
           = written st (stream (objects st r)) @ varint (length payload) @ payload \<and>
         lp_decode_frame (varint (length payload) @ payload @ rest) = Some (payload, rest) \<and>
         (\<exists>json. JSON_stringify m = Some json \<and>
            send s m = Inr (s\<lparr>outbound := outbound s @ [uint8ArrayFromString json],
                                seq := Suc (seq s)\<rparr>)) \<and>
         get_prop (handshake p) ''type'' = Some (JStr ''hello'') \<and>
         get_prop message ''type'' = Some (JStr ''m.room.message'') \<and>
         handleStream_inbound st4 r4 (Parsed v) = console_warn st4 ''Unknown message type:'' t"
proof -
  have w: "written (handleStream_outbound st r True) (stream (objects st r))
           = written st (stream (objects st r)) @ varint (length payload) @ payload"
    using assms(1,2) by (simp add: handleStream_outbound_def Let_def lp_encode_def)
  obtain json where j: "JSON_stringify m = Some json"
    using assms(5) stringify_None_iff [of m] by (cases "JSON_stringify m") auto
  have s: "send s m = Inr (s\<lparr>outbound := outbound s @ [uint8ArrayFromString json],
                                seq := Suc (seq s)\<rparr>)"
    using assms(3) j by (simp add: send_def)
  have i: "handleStream_inbound st4 r4 (Parsed v) = console_warn st4 ''Unknown message type:'' t"
    using assms(7) no_handler_without_string [OF assms(8)]
    by (simp add: handleStream_inbound_def handleMessage_def)
  show ?thesis
    using w j s i lp_decode_encode [OF assms(2)] sendMessage_send_type [OF assms(6)]
    by (simp add: handshake_def)
qed

theorem frames_length_prefixed_json_witness:
  "outbound (objects raw_queued 0) = [123, 125] # [] \<and>
   length [123, 125 :: byte] \<le> MAX_DATA_LENGTH \<and>
   isActive (new_ChatSession 1 ''QmPeerB'') \<and> js_value (JStr ''hi'') \<and> JStr ''hi'' \<noteq> JUndefined \<and>
   get_prop (JObj [(''type'', JNum 7)]) ''type'' = Some (JNum 7) \<and> (\<forall>k. JNum 7 \<noteq> JStr k) \<and>
   written (handleStream_outbound raw_queued 0 True) 1 = [2, 123, 125] \<and>
   lp_decode_frame [2, 123, 125, 9] = Some ([123, 125], [9]) \<and>
   send (new_ChatSession 1 ''QmPeerB'') (JStr ''hi'') =
     Inr ((new_ChatSession 1 ''QmPeerB'')\<lparr>outbound := [[34, 104, 105, 34]], seq := 1\<rparr>) \<and>
   get_prop (fst (snd (sendMessage_send after_inbound 0 ''hi'' ''room1''))) ''type''
     = Some (JStr ''m.room.message'') \<and>
   handleStream_inbound after_inbound 0 (Parsed (JObj [(''type'', JNum 7)])) =
     console_warn after_inbound ''Unknown message type:'' (JNum 7)"
proof -
  have q: "outbound (objects raw_queued 0) = [123, 125] # []"
    and strm: "stream (objects raw_queued 0) = 1"
    and w0: "written raw_queued 1 = []"
    by (simp_all add: raw_queued_def example_protocol_def new_ChatProtocol_def new_ChatSession_def)
  have len: "length [123, 125 :: byte] \<le> MAX_DATA_LENGTH"
    by (simp add: MAX_DATA_LENGTH_def)
  have act: "isActive (new_ChatSession 1 ''QmPeerB'')"
    and q0: "outbound (new_ChatSession 1 ''QmPeerB'') = []"
    and sq0: "seq (new_ChatSession 1 ''QmPeerB'') = 0"
    by (simp_all add: new_ChatSession_def)
  have val: "js_value (JStr ''hi'')" and ne: "JStr ''hi'' \<noteq> JUndefined"
    by simp_all
  have js: "JSON_stringify (JStr ''hi'') = Some [CHR 0x22, CHR ''h'', CHR ''i'', CHR 0x22]"
    by (simp add: quote_def escape_char_def char_of_def bit_0)
  have bytes: "uint8ArrayFromString [CHR 0x22, CHR ''h'', CHR ''i'', CHR 0x22] = [34, 104, 105, 34]"
    by (simp add: uint8ArrayFromString_def utf8_char_def)
  have sm: "sendMessage_send after_inbound 0 ''hi'' ''room1'' =
     (fst (sendMessage_send after_inbound 0 ''hi'' ''room1''),
      fst (snd (sendMessage_send after_inbound 0 ''hi'' ''room1'')),
      snd (snd (sendMessage_send after_inbound 0 ''hi'' ''room1'')))"
    by simp
  have ty: "get_prop (JObj [(''type'', JNum 7)]) ''type'' = Some (JNum 7)"
    and nostr: "\<forall>k. JNum 7 \<noteq> JStr k"
    by simp_all
  have v2: "varint (Suc (Suc 0)) = [2]"
    by (simp add: varint.simps [of "Suc (Suc 0)"])
  show ?thesis
    using frames_length_prefixed_json [OF q len act val ne sm ty nostr,
        of "[9]" "''QmSelf''" after_inbound 0]
      q len act val ne ty nostr strm w0 q0 sq0 js bytes v2
    by simp
qed

subsection \<open>Handshake\<close>

text \<open>
  C3, as stated, fails: a session created from an inbound stream that receives the
  peer's \<^verbatim>\<open>hello\<close> sends nothing. Its queue keeps the one payload of the handshake
  sent when it was opened, and the only effect is the \<^verbatim>\<open>peer:handshake\<close> event.
\<close>

theorem hello_received_no_reply:
  "length (outbound (objects after_inbound 0)) = 1 \<and>
   objects (handleStream_inbound after_inbound 0 (Parsed (handshake ''QmPeerC''))) 0
     = objects after_inbound 0 \<and>
   emitted (handleStream_inbound after_inbound 0 (Parsed (handshake ''QmPeerC''))) =
     [(''chat:connected'', JObj [(''peerId'', JStr ''QmPeerC'')]),
      (''peer:handshake'', JObj [(''peerId'', JStr ''QmPeerC''),
         (''capabilities'', JObj [(''v'', JNum 1), (''maxFrame'', JNum 131072)])])]"
  by (simp add: after_inbound_def example_protocol_def handleIncomingStream_def
      new_ChatProtocol_def Map_has_def Map_get_def sendHandshake_def send_def handshake_def
      new_ChatSession_def emit_def Let_def handleStream_inbound_def handleMessage_def
      registerMessageHandlers_def hello_handler_def read_prop_def)

text \<open>
  C3, amended. A \<^verbatim>\<open>hello\<close> envelope is sent once when a session is opened, by
  \<^verbatim>\<open>handleIncomingStream\<close> for an inbound stream and by \<^verbatim>\<open>openStream\<close> for a dialled
  one (to a peer identifier that \<^verbatim>\<open>peerIdFromString\<close> accepts): the new session holds
  exactly that payload. Receiving the peer's \<^verbatim>\<open>hello\<close> emits \<^verbatim>\<open>peer:handshake\<close> and
  sends nothing, on either kind of session; the two \<^verbatim>\<open>hello\<close> messages cross because
  each side sends its own on opening.
\<close>

theorem hello_sent_once_when_opened:
  assumes "\<not> Map_has (sessions st) p"
    and "peerIdFromString_ok st p"
    and "dial st (dial_calls st) = Dialed strm'"
    and "get_prop m ''type'' = Some (JStr ''hello'')"
  shows "\<exists>json. JSON_stringify (handshake (node_peerId st)) = Some json \<and>
           objects (fst (handleIncomingStream st strm p)) (next_ref st) =
             (new_ChatSession strm p)\<lparr>outbound := [uint8ArrayFromString json], seq := 1\<rparr> \<and>
           objects (fst (openStream st p)) (next_ref st) =
             (new_ChatSession strm' p)\<lparr>outbound := [uint8ArrayFromString json], seq := 1\<rparr> \<and>
           handleMessage st m q =
             (emit st ''peer:handshake''
                (JObj [(''peerId'', JStr q), (''capabilities'', read_prop m ''capabilities'')]),
              Inr ()) \<and>
           objects (handleStream_inbound st r (Parsed m)) = objects st"
proof -
  obtain json where t: "JSON_stringify (handshake (node_peerId st)) = Some json"
    by (auto simp: handshake_def)
  have none: "Map_get (sessions st) p = None"
    using assms(1) by (simp add: Map_has_def Map_get_def)
  have a: "objects (fst (handleIncomingStream st strm p)) (next_ref st) =
             (new_ChatSession strm p)\<lparr>outbound := [uint8ArrayFromString json], seq := 1\<rparr>"
    using assms(1) t
    by (simp add: handleIncomingStream_def Let_def sendHandshake_def send_def new_ChatSession_def
        emit_def)
  have b: "objects (fst (openStream st p)) (next_ref st) =
             (new_ChatSession strm' p)\<lparr>outbound := [uint8ArrayFromString json], seq := 1\<rparr>"
    using none assms(2,3) t
    by (simp add: openStream_def openStream_try_def Let_def sendHandshake_def send_def
        new_ChatSession_def emit_def)
  have c: "handleMessage st m q =
             (emit st ''peer:handshake''
                (JObj [(''peerId'', JStr q), (''capabilities'', read_prop m ''capabilities'')]),
              Inr ())"
    using assms(4)
    by (simp add: handleMessage_def registerMessageHandlers_def Map_get_def hello_handler_def)
  have d: "objects (handleStream_inbound st r (Parsed m)) = objects st"
    using assms(4)
    by (simp add: handleStream_inbound_def handleMessage_def registerMessageHandlers_def
        Map_get_def hello_handler_def emit_def)
  show ?thesis using t a b c d by blast
qed

theorem hello_sent_once_when_opened_witness:
  "\<not> Map_has (sessions example_protocol) TARGET_PEER_ID \<and>
   peerIdFromString_ok example_protocol TARGET_PEER_ID \<and>
   dial example_protocol (dial_calls example_protocol) = Dialed 2 \<and>
   get_prop (handshake TARGET_PEER_ID) ''type'' = Some (JStr ''hello'') \<and>
   (\<exists>json. JSON_stringify (handshake ''QmSelf'') = Some json \<and>
      objects (fst (handleIncomingStream example_protocol 1 TARGET_PEER_ID)) 0 =
        (new_ChatSession 1 TARGET_PEER_ID)\<lparr>outbound := [uint8ArrayFromString json], seq := 1\<rparr> \<and>
      objects (fst (openStream example_protocol TARGET_PEER_ID)) 0 =
        (new_ChatSession 2 TARGET_PEER_ID)\<lparr>outbound := [uint8ArrayFromString json], seq := 1\<rparr> \<and>
      objects (handleStream_inbound example_protocol 0 (Parsed (handshake TARGET_PEER_ID)))
        = objects example_protocol)"
proof -
  have h1: "\<not> Map_has (sessions example_protocol) TARGET_PEER_ID"
    by (simp add: example_protocol_def new_ChatProtocol_def Map_has_def)
  have h2: "peerIdFromString_ok example_protocol TARGET_PEER_ID"
    by (simp add: example_protocol_def new_ChatProtocol_def)
  have h3: "dial example_protocol (dial_calls example_protocol) = Dialed 2"
    by (simp add: example_protocol_def new_ChatProtocol_def)
  have h4: "get_prop (handshake TARGET_PEER_ID) ''type'' = Some (JStr ''hello'')"
    by (simp add: handshake_def)
  have self: "node_peerId example_protocol = ''QmSelf''"
    and ref: "next_ref example_protocol = 0"
    by (simp_all add: example_protocol_def new_ChatProtocol_def)
  from hello_sent_once_when_opened [OF h1 h2 h3 h4, of 1 TARGET_PEER_ID 0]
  have "\<exists>json. JSON_stringify (handshake ''QmSelf'') = Some json \<and>
      objects (fst (handleIncomingStream example_protocol 1 TARGET_PEER_ID)) 0 =
        (new_ChatSession 1 TARGET_PEER_ID)\<lparr>outbound := [uint8ArrayFromString json], seq := 1\<rparr> \<and>
      objects (fst (openStream example_protocol TARGET_PEER_ID)) 0 =
        (new_ChatSession 2 TARGET_PEER_ID)\<lparr>outbound := [uint8ArrayFromString json], seq := 1\<rparr> \<and>
      objects (handleStream_inbound example_protocol 0 (Parsed (handshake TARGET_PEER_ID)))
        = objects example_protocol"
    unfolding self ref by blast
  then show ?thesis using h1 h2 h3 h4 by simp
qed

subsection \<open>Unknown envelope types\<close>

text \<open>
  C9, as stated, fails: an envelope of the unknown type \<^verbatim>\<open>m.unknown.future\<close> is not
  forwarded. After it was received, the events emitted are those emitted before,
  the storage is as before, and the only trace is a console warning. The session
  is still active.
\<close>

theorem unknown_type_not_forwarded:
  "emitted (handleStream_inbound after_inbound 0
      (Parsed (JObj [(''type'', JStr ''m.unknown.future''), (''data'', JNum 1)])))
     = [(''chat:connected'', JObj [(''peerId'', JStr ''QmPeerC'')])] \<and>
   emitted after_inbound = [(''chat:connected'', JObj [(''peerId'', JStr ''QmPeerC'')])] \<and>
   localStorage (handleStream_inbound after_inbound 0
      (Parsed (JObj [(''type'', JStr ''m.unknown.future''), (''data'', JNum 1)])))
     = localStorage after_inbound \<and>
   warnings (handleStream_inbound after_inbound 0
      (Parsed (JObj [(''type'', JStr ''m.unknown.future''), (''data'', JNum 1)])))
     = [(''Unknown message type:'', JStr ''m.unknown.future'')] \<and>
   isActive (objects (handleStream_inbound after_inbound 0
      (Parsed (JObj [(''type'', JStr ''m.unknown.future''), (''data'', JNum 1)]))) 0)"
  by (simp add: after_inbound_def example_protocol_def handleIncomingStream_def
      new_ChatProtocol_def Map_has_def Map_get_def sendHandshake_def send_def handshake_def
      new_ChatSession_def emit_def Let_def handleStream_inbound_def handleMessage_def
      registerMessageHandlers_def console_warn_def)

text \<open>
  C9, amended. A received envelope whose \<^verbatim>\<open>type\<close> is none of the four registered
  ones is not an error and does not end the session: \<^verbatim>\<open>handleMessage\<close> returns
  normally, and the state changes by one console warning only. Nothing is emitted
  or stored, and no session is touched.
\<close>

theorem unknown_type_logged_and_dropped:
  assumes "get_prop m ''type'' = Some t"
    and "t \<noteq> JStr ''hello''" and "t \<noteq> JStr ''m.room.message''"
    and "t \<noteq> JStr ''m.typing''" and "t \<noteq> JStr ''m.nickname''"
  shows "handleMessage st m p = (console_warn st ''Unknown message type:'' t, Inr ()) \<and>
         handleStream_inbound st r (Parsed m) = st\<lparr>warnings := warnings st @ [(''Unknown message type:'', t)]\<rparr>"
proof -
  have "messageHandlers_get t = None"
    using assms(2-5)
    by (cases t) (auto simp: registerMessageHandlers_def Map_get_def)
  then show ?thesis
    using assms(1) by (simp add: handleMessage_def handleStream_inbound_def console_warn_def)
qed

theorem unknown_type_logged_and_dropped_witness:
  "get_prop (JObj [(''type'', JStr ''m.unknown.future'')]) ''type''
     = Some (JStr ''m.unknown.future'') \<and>
   JStr ''m.unknown.future'' \<noteq> JStr ''hello'' \<and>
   JStr ''m.unknown.future'' \<noteq> JStr ''m.room.message'' \<and>
   JStr ''m.unknown.future'' \<noteq> JStr ''m.typing'' \<and>
   JStr ''m.unknown.future'' \<noteq> JStr ''m.nickname'' \<and>
   handleMessage after_inbound (JObj [(''type'', JStr ''m.unknown.future'')]) ''QmPeerC'' =
     (console_warn after_inbound ''Unknown message type:'' (JStr ''m.unknown.future''), Inr ()) \<and>
   handleStream_inbound after_inbound 0 (Parsed (JObj [(''type'', JStr ''m.unknown.future'')])) =
     after_inbound\<lparr>warnings := warnings after_inbound @
       [(''Unknown message type:'', JStr ''m.unknown.future'')]\<rparr>"
  using unknown_type_logged_and_dropped
    [of "JObj [(''type'', JStr ''m.unknown.future'')]" "JStr ''m.unknown.future''"
      after_inbound "''QmPeerC''" 0]
  by simp


subsection \<open>Broadcast\<close>

lemma send_active:
  "isActive s \<Longrightarrow> JSON_stringify m = Some json \<Longrightarrow>
     send s m = Inr (s\<lparr>outbound := outbound s @ [uint8ArrayFromString json], seq := Suc (seq s)\<rparr>)"
  by (simp add: send_def)

lemma stringify_chat_message: "\<exists>json. JSON_stringify (chat_message a b c d e f) = Some json"
  by (simp add: chat_message_def)

lemma send_isActive: "send s m = Inr s' \<Longrightarrow> isActive s' = isActive s"
  by (auto simp: send_def split: if_splits option.splits)


lemma sendMessage_send_frame:
  "sessions (fst (sendMessage_send st r c room)) = sessions st \<and>
   node_peerId (fst (sendMessage_send st r c room)) = node_peerId st \<and>
   emitted (fst (sendMessage_send st r c room)) = emitted st \<and>
   localStorage (fst (sendMessage_send st r c room)) = localStorage st \<and>
   setItem_throws (fst (sendMessage_send st r c room)) = setItem_throws st \<and>
   setItem_calls (fst (sendMessage_send st r c room)) = setItem_calls st \<and>
   clock (fst (sendMessage_send st r c room)) = clock st \<and>
   isActive (objects (fst (sendMessage_send st r c room)) r') = isActive (objects st r')"
  by (auto simp: sendMessage_send_def Date_now_def generateEventId_def Let_def send_def
      split: sum.splits if_splits option.splits)

lemma sendMessage_send_others:
  "r' \<noteq> r \<Longrightarrow> objects (fst (sendMessage_send st r c room)) r' = objects st r'"
  by (auto simp: sendMessage_send_def Date_now_def generateEventId_def Let_def send_def
      split: sum.splits if_splits option.splits)

lemma sendMessage_send_active:
  assumes "isActive (objects st r)"
  shows "\<exists>ts ev json.
           JSON_stringify (chat_message (node_peerId st) room ts (seq (objects st r)) ev c) = Some json \<and>
           snd (sendMessage_send st r c room) =
             (chat_message (node_peerId st) room ts (seq (objects st r)) ev c, None) \<and>
           outbound (objects (fst (sendMessage_send st r c room)) r) =
             outbound (objects st r) @ [uint8ArrayFromString json]"
proof -
  let ?ts = "clock st (clock_reads st)"
  let ?ev = "show_int (clock st (Suc (clock_reads st))) @ ''_'' @ rand st (rand_reads st)"
  obtain json where j:
    "JSON_stringify (chat_message (node_peerId st) room ?ts (seq (objects st r)) ?ev c) = Some json"
    using stringify_chat_message by blast
  have "snd (sendMessage_send st r c room) =
             (chat_message (node_peerId st) room ?ts (seq (objects st r)) ?ev c, None) \<and>
        outbound (objects (fst (sendMessage_send st r c room)) r) =
             outbound (objects st r) @ [uint8ArrayFromString json]"
    using assms j
    by (simp add: sendMessage_send_def Date_now_def generateEventId_def Let_def send_active)
  with j show ?thesis by blast
qed

lemma sendMessage_start_found:
  "Map_get (sessions st) p = Some r \<Longrightarrow>
     sendMessage_start st p c room =
       (fst (sendMessage_send st r c room),
        AwaitSend (fst (snd (sendMessage_send st r c room))) (snd (snd (sendMessage_send st r c room))))"
  by (simp add: sendMessage_start_def split: prod.splits)

lemma sendMessage_start_frame:
  "sessions (fst (sendMessage_start st p c room)) = sessions st \<and>
   node_peerId (fst (sendMessage_start st p c room)) = node_peerId st \<and>
   emitted (fst (sendMessage_start st p c room)) = emitted st \<and>
   localStorage (fst (sendMessage_start st p c room)) = localStorage st \<and>
   setItem_throws (fst (sendMessage_start st p c room)) = setItem_throws st \<and>
   setItem_calls (fst (sendMessage_start st p c room)) = setItem_calls st \<and>
   clock (fst (sendMessage_start st p c room)) = clock st \<and>
   isActive (objects (fst (sendMessage_start st p c room)) r') = isActive (objects st r')"
proof (cases "Map_get (sessions st) p")
  case None
  then show ?thesis by (simp add: sendMessage_start_def)
next
  case (Some r)
  show ?thesis
    using sendMessage_send_frame [of st r c room r']
    by (simp add: sendMessage_start_found [OF Some])
qed

lemma sendMessage_start_others:
  "Map_get (sessions st) p = Some r \<Longrightarrow> r' \<noteq> r \<Longrightarrow>
     objects (fst (sendMessage_start st p c room)) r' = objects st r'"
  by (simp add: sendMessage_start_found sendMessage_send_others)

lemma sendMessage_start_active:
  assumes "Map_get (sessions st) p = Some r" and "isActive (objects st r)"
  shows "\<exists>ts ev json.
           JSON_stringify (chat_message (node_peerId st) room ts (seq (objects st r)) ev c) = Some json \<and>
           snd (sendMessage_start st p c room) =
             AwaitSend (chat_message (node_peerId st) room ts (seq (objects st r)) ev c) None \<and>
           outbound (objects (fst (sendMessage_start st p c room)) r) =
             outbound (objects st r) @ [uint8ArrayFromString json]"
proof -
  from sendMessage_send_active [OF assms(2), of room c]
  obtain ts ev json where
    j: "JSON_stringify (chat_message (node_peerId st) room ts (seq (objects st r)) ev c) = Some json"
    and m: "snd (sendMessage_send st r c room) =
             (chat_message (node_peerId st) room ts (seq (objects st r)) ev c, None)"
    and q: "outbound (objects (fst (sendMessage_send st r c room)) r) =
             outbound (objects st r) @ [uint8ArrayFromString json]"
    by blast
  have "snd (sendMessage_start st p c room) =
             AwaitSend (chat_message (node_peerId st) room ts (seq (objects st r)) ev c) None \<and>
        outbound (objects (fst (sendMessage_start st p c room)) r) =
             outbound (objects st r) @ [uint8ArrayFromString json]"
    using m q by (simp add: sendMessage_start_found [OF assms(1)])
  with j show ?thesis by blast
qed

lemma broadcast_calls_fst:
  "fst (broadcast_calls st ((p, r) # es) c room) =
     (if isActive (objects st r)
      then fst (broadcast_calls (fst (sendMessage_start st p c room)) es c room)
      else fst (broadcast_calls st es c room))"
  by (simp split: prod.splits)

lemma broadcast_calls_snd:
  "snd (broadcast_calls st ((p, r) # es) c room) =
     (if isActive (objects st r)
      then (p, snd (sendMessage_start st p c room))
             # snd (broadcast_calls (fst (sendMessage_start st p c room)) es c room)
      else snd (broadcast_calls st es c room))"
  by (simp split: prod.splits)

lemma broadcast_calls_frame:
  "sessions (fst (broadcast_calls st es c room)) = sessions st \<and>
   node_peerId (fst (broadcast_calls st es c room)) = node_peerId st \<and>
   emitted (fst (broadcast_calls st es c room)) = emitted st \<and>
   localStorage (fst (broadcast_calls st es c room)) = localStorage st \<and>
   setItem_throws (fst (broadcast_calls st es c room)) = setItem_throws st \<and>
   setItem_calls (fst (broadcast_calls st es c room)) = setItem_calls st \<and>
   clock (fst (broadcast_calls st es c room)) = clock st \<and>
   isActive (objects (fst (broadcast_calls st es c room)) r') = isActive (objects st r')"
proof (induction es arbitrary: st)
  case Nil
  then show ?case by simp
next
  case (Cons e es)
  obtain p r where e: "e = (p, r)" by (cases e)
  show ?case
    using Cons.IH [of st] Cons.IH [of "fst (sendMessage_start st p c room)"]
      sendMessage_start_frame [of st p c room r']
    unfolding e broadcast_calls_fst by simp
qed

lemma broadcast_calls_others:
  assumes "\<forall>e \<in> set es. Map_get (sessions st) (fst e) = Some (snd e)"
    and "r0 \<notin> snd ` set es"
  shows "objects (fst (broadcast_calls st es c room)) r0 = objects st r0"
  using assms
proof (induction es arbitrary: st)
  case Nil
  then show ?case by simp
next
  case (Cons e es)
  obtain p r where e: "e = (p, r)" by (cases e)
  let ?st1 = "fst (sendMessage_start st p c room)"
  have look: "Map_get (sessions st) p = Some r" and ne: "r0 \<noteq> r"
    using Cons.prems e by auto
  have same: "sessions ?st1 = sessions st"
    using sendMessage_start_frame [of st p c room] by simp
  have o1: "objects ?st1 r0 = objects st r0"
    using sendMessage_start_others [OF look ne] .
  have ih1: "objects (fst (broadcast_calls ?st1 es c room)) r0 = objects ?st1 r0"
    using Cons.IH [of ?st1] Cons.prems same by simp
  have ih0: "objects (fst (broadcast_calls st es c room)) r0 = objects st r0"
    using Cons.IH [of st] Cons.prems by simp
  show ?case
    unfolding e broadcast_calls_fst using o1 ih1 ih0 by simp
qed

lemma broadcast_calls_queued:
  assumes "\<forall>e \<in> set es. Map_get (sessions st) (fst e) = Some (snd e)"
    and "distinct (map snd es)"
    and "(p0, r0) \<in> set es"
    and "isActive (objects st r0)"
  shows "\<exists>ts sq ev json.
           JSON_stringify (chat_message (node_peerId st) room ts sq ev c) = Some json \<and>
           outbound (objects (fst (broadcast_calls st es c room)) r0) =
             outbound (objects st r0) @ [uint8ArrayFromString json]"
  using assms
proof (induction es arbitrary: st)
  case Nil
  then show ?case by simp
next
  case (Cons e es)
  obtain p r where e: "e = (p, r)" by (cases e)
  let ?st1 = "fst (sendMessage_start st p c room)"
  have look: "Map_get (sessions st) p = Some r"
    using Cons.prems(1) e by simp
  have fr: "sessions ?st1 = sessions st" "node_peerId ?st1 = node_peerId st"
    using sendMessage_start_frame [of st p c room] by simp_all
  have rest: "\<forall>e \<in> set es. Map_get (sessions ?st1) (fst e) = Some (snd e)"
    "\<forall>e \<in> set es. Map_get (sessions st) (fst e) = Some (snd e)"
    using Cons.prems(1) fr(1) by simp_all
  show ?case
  proof (cases "r = r0")
    case True
    then have notin: "r0 \<notin> snd ` set es"
      using Cons.prems(2) e by auto
    have act: "isActive (objects st r)" using True Cons.prems(4) by simp
    from sendMessage_start_active [OF look act, of room c]
    obtain ts ev json where
      j: "JSON_stringify (chat_message (node_peerId st) room ts (seq (objects st r)) ev c) = Some json"
      and q: "outbound (objects ?st1 r) = outbound (objects st r) @ [uint8ArrayFromString json]"
      by blast
    have "objects (fst (broadcast_calls ?st1 es c room)) r0 = objects ?st1 r0"
      using broadcast_calls_others [OF rest(1) notin] .
    then have "outbound (objects (fst (broadcast_calls st (e # es) c room)) r0) =
             outbound (objects st r0) @ [uint8ArrayFromString json]"
      unfolding e broadcast_calls_fst using act q True by simp
    with j show ?thesis by blast
  next
    case False
    then have mem: "(p0, r0) \<in> set es"
      using Cons.prems(3) e by auto
    have d: "distinct (map snd es)" using Cons.prems(2) by simp
    show ?thesis
    proof (cases "isActive (objects st r)")
      case True
      have o1: "objects ?st1 r0 = objects st r0"
        using sendMessage_start_others [OF look, of r0 c room] False by simp
      have a1: "isActive (objects ?st1 r0)" using o1 Cons.prems(4) by simp
      from Cons.IH [OF rest(1) d mem a1]
      show ?thesis
        unfolding e broadcast_calls_fst using True o1 fr(2) by simp
    next
      case inactive: False
      from Cons.IH [OF rest(2) d mem Cons.prems(4)]
      show ?thesis
        unfolding e broadcast_calls_fst using inactive by simp
    qed
  qed
qed


lemma sessions_lookup:
  "distinct (map fst m) \<Longrightarrow> \<forall>e \<in> set m. Map_get m (fst e) = Some (snd e)"
  by (auto simp: Map_get_def)

lemma broadcast_calls_pending:
  assumes "\<forall>e \<in> set es. Map_get (sessions st) (fst e) = Some (snd e)"
  shows "\<exists>msgs. snd (broadcast_calls st es c room) = map (\<lambda>pm. (fst pm, AwaitSend (snd pm) None)) msgs \<and>
           length msgs = length (filter (\<lambda>e. isActive (objects st (snd e))) es) \<and>
           (\<forall>pm \<in> set msgs. \<exists>ts sq ev. snd pm = chat_message (node_peerId st) room ts sq ev c)"
  using assms
proof (induction es arbitrary: st)
  case Nil
  then show ?case by simp
next
  case (Cons e es)
  obtain p r where e: "e = (p, r)" by (cases e)
  let ?st1 = "fst (sendMessage_start st p c room)"
  have look: "Map_get (sessions st) p = Some r"
    using Cons.prems e by simp
  have fr: "sessions ?st1 = sessions st" "node_peerId ?st1 = node_peerId st"
    "\<And>r'. isActive (objects ?st1 r') = isActive (objects st r')"
    using sendMessage_start_frame [of st p c room] by simp_all
  show ?case
  proof (cases "isActive (objects st r)")
    case True
    from sendMessage_start_active [OF look True, of room c]
    obtain ts ev where
      m: "snd (sendMessage_start st p c room) =
            AwaitSend (chat_message (node_peerId st) room ts (seq (objects st r)) ev c) None"
      by blast
    have "\<forall>e \<in> set es. Map_get (sessions ?st1) (fst e) = Some (snd e)"
      using Cons.prems fr(1) by simp
    from Cons.IH [OF this]
    obtain msgs where
      ih: "snd (broadcast_calls ?st1 es c room) = map (\<lambda>pm. (fst pm, AwaitSend (snd pm) None)) msgs"
        "length msgs = length (filter (\<lambda>e. isActive (objects st (snd e))) es)"
        "\<forall>pm \<in> set msgs. \<exists>ts sq ev. snd pm = chat_message (node_peerId st) room ts sq ev c"
      unfolding fr by blast
    let ?msgs = "(p, chat_message (node_peerId st) room ts (seq (objects st r)) ev c) # msgs"
    have "snd (broadcast_calls st (e # es) c room) =
            map (\<lambda>pm. (fst pm, AwaitSend (snd pm) None)) ?msgs"
      unfolding e broadcast_calls_snd using True m ih(1) by simp
    moreover have "length ?msgs = length (filter (\<lambda>e. isActive (objects st (snd e))) (e # es))"
      using True ih(2) e by simp
    moreover have "\<forall>pm \<in> set ?msgs. \<exists>ts sq ev. snd pm = chat_message (node_peerId st) room ts sq ev c"
      using ih(3) by auto
    ultimately show ?thesis by blast
  next
    case False
    have "\<forall>e \<in> set es. Map_get (sessions st) (fst e) = Some (snd e)"
      using Cons.prems by simp
    from Cons.IH [OF this]
    show ?thesis
      unfolding e broadcast_calls_snd using False by simp
  qed
qed

lemma sendMessage_store_objects:
  "objects (fst (sendMessage_store st room m thrown)) = objects st"
  by (auto simp: sendMessage_store_def addMessage_def Date_now_def emit_def Let_def
      split: option.splits prod.splits sum.splits if_splits)

lemma broadcast_settle_fst:
  "fst (broadcast_settle st ((p, pnd) # pnds) c room) =
     fst (broadcast_settle (fst (sendMessage_resume st p c room pnd)) pnds c room)"
  by (simp split: prod.splits)

lemma broadcast_settle_snd:
  "snd (broadcast_settle st ((p, pnd) # pnds) c room) =
     snd (sendMessage_resume st p c room pnd)
       # snd (broadcast_settle (fst (sendMessage_resume st p c room pnd)) pnds c room)"
  by (simp split: prod.splits)

lemma broadcast_settle_objects:
  "objects (fst (broadcast_settle st (map (\<lambda>pm. (fst pm, AwaitSend (snd pm) None)) msgs) c room))
     = objects st"
proof (induction msgs arbitrary: st)
  case Nil
  then show ?case by simp
next
  case (Cons pm msgs)
  show ?case
    using Cons.IH [of "fst (sendMessage_store st room (snd pm) None)"]
    by (simp del: broadcast_settle.simps
        add: broadcast_settle_fst sendMessage_resume_def sendMessage_store_objects)
qed

lemma broadcast_settle_length:
  "length (snd (broadcast_settle st pnds c room)) = length pnds"
proof (induction pnds arbitrary: st)
  case Nil
  then show ?case by simp
next
  case (Cons x pnds)
  obtain p pnd where x: "x = (p, pnd)" by (cases x)
  show ?case
    unfolding x broadcast_settle_snd using Cons.IH by simp
qed

lemma handleStream_outbound_others:
  "r' \<noteq> r \<Longrightarrow> objects (handleStream_outbound st r' ok) r = objects st r"
  by (simp add: handleStream_outbound_def close_def handleSessionClose_def emit_def Let_def
      split: list.splits)

text \<open>
  C7. \<^verbatim>\<open>broadcast\<close> makes one attempt for every active session of the registry:
  each active session gets one more payload in its queue, a chat message with the
  given room and body, and there are as many results as active sessions. This holds
  whatever the storage does, so a call of \<^verbatim>\<open>sendMessage\<close> that fails for one session
  does not keep the others from being served. A write that fails on the stream of
  another session closes that session only and leaves the payload queued here.
\<close>

theorem broadcast_attempts_every_active_session:
  assumes "distinct (map fst (sessions st))"
    and "distinct (map snd (sessions st))"
    and "(p, r) \<in> set (sessions st)"
    and "isActive (objects st r)"
  shows "(\<exists>ts sq ev json.
            JSON_stringify (chat_message (node_peerId st) roomId ts sq ev content) = Some json \<and>
            outbound (objects (fst (broadcast st content roomId)) r) =
              outbound (objects st r) @ [uint8ArrayFromString json]) \<and>
         length (snd (broadcast st content roomId)) = length (getActiveSessions st) \<and>
         (\<forall>r'. r' \<noteq> r \<longrightarrow>
            objects (handleStream_outbound (fst (broadcast st content roomId)) r' False) r =
              objects (fst (broadcast st content roomId)) r)"
proof -
  let ?calls = "broadcast_calls st (sessions st) content roomId"
  have look: "\<forall>e \<in> set (sessions st). Map_get (sessions st) (fst e) = Some (snd e)"
    using sessions_lookup [OF assms(1)] .
  from broadcast_calls_pending [OF look, of content roomId]
  obtain msgs where
    pnds: "snd ?calls = map (\<lambda>pm. (fst pm, AwaitSend (snd pm) None)) msgs"
    and len: "length msgs = length (getActiveSessions st)"
    unfolding getActiveSessions_def by blast
  have b: "broadcast st content roomId =
             broadcast_settle (fst ?calls) (map (\<lambda>pm. (fst pm, AwaitSend (snd pm) None)) msgs)
               content roomId"
    using pnds by (simp add: broadcast_def case_prod_unfold)
  have obj: "objects (fst (broadcast st content roomId)) = objects (fst ?calls)"
    unfolding b by (rule broadcast_settle_objects)
  from broadcast_calls_queued [OF look assms(2) assms(3) assms(4), of roomId content]
  have q: "\<exists>ts sq ev json.
            JSON_stringify (chat_message (node_peerId st) roomId ts sq ev content) = Some json \<and>
            outbound (objects (fst (broadcast st content roomId)) r) =
              outbound (objects st r) @ [uint8ArrayFromString json]"
    unfolding obj .
  have n: "length (snd (broadcast st content roomId)) = length (getActiveSessions st)"
    unfolding b using len by (simp add: broadcast_settle_length)
  show ?thesis
    using q n handleStream_outbound_others by blast
qed


lemma limit_history_id: "length xs \<le> MAX_MESSAGES_PER_ROOM \<Longrightarrow> limit_history xs = xs"
  by (simp add: limit_history_def)

lemma length_limit_history: "length (limit_history xs) \<le> MAX_MESSAGES_PER_ROOM"
  by (simp add: limit_history_def)

lemma limit_history_again: "limit_history (limit_history xs @ ys) = limit_history (xs @ ys)"
  by (auto simp: limit_history_def add.commute)

lemma sendMessage_store_step:
  "snd (sendMessage_store st room m None) =
     (if setItem_throws st (setItem_calls st) then Inl (StorageFailed (''history-'' @ room))
      else Inr m) \<and>
   emitted (fst (sendMessage_store st room m None)) =
     emitted st @ (if setItem_throws st (setItem_calls st) then [] else [(''message:sent'', m)]) \<and>
   stored_messages (fst (sendMessage_store st room m None)) room =
     (if setItem_throws st (setItem_calls st) then stored_messages st room
      else limit_history (stored_messages st room @ [stored_entry m (clock st (clock_reads st))])) \<and>
   setItem_throws (fst (sendMessage_store st room m None)) = setItem_throws st \<and>
   setItem_calls (fst (sendMessage_store st room m None)) = Suc (setItem_calls st) \<and>
   clock (fst (sendMessage_store st room m None)) = clock st \<and>
   clock_reads (fst (sendMessage_store st room m None)) = Suc (clock_reads st)"
  by (simp add: sendMessage_store_def addMessage_def Date_now_def emit_def Let_def
      stored_messages_def)

lemma broadcast_settle_outcome:
  assumes "length (stored_messages st room) \<le> MAX_MESSAGES_PER_ROOM"
  shows "snd (broadcast_settle st (map (\<lambda>pm. (fst pm, AwaitSend (snd pm) None)) pms) c room)
           = broadcast_results (setItem_throws st) (setItem_calls st) room (map snd pms) \<and>
         emitted (fst (broadcast_settle st (map (\<lambda>pm. (fst pm, AwaitSend (snd pm) None)) pms) c room))
           = emitted st @ broadcast_events (setItem_throws st) (setItem_calls st) (map snd pms) \<and>
         stored_messages
             (fst (broadcast_settle st (map (\<lambda>pm. (fst pm, AwaitSend (snd pm) None)) pms) c room)) room
           = limit_history (stored_messages st room @
               broadcast_entries (clock st) (setItem_throws st) (clock_reads st) (setItem_calls st)
                 (map snd pms))"
  using assms
proof (induction pms arbitrary: st)
  case Nil
  then show ?case by (simp add: limit_history_id)
next
  case (Cons pm pms)
  let ?st1 = "fst (sendMessage_store st room (snd pm) None)"
  let ?e = "stored_entry (snd pm) (clock st (clock_reads st))"
  let ?pnds = "map (\<lambda>pm. (fst pm, AwaitSend (snd pm) None)) pms"
  note s = sendMessage_store_step [of st room "snd pm"]
  have l1: "length (stored_messages ?st1 room) \<le> MAX_MESSAGES_PER_ROOM"
    using s Cons.prems by (simp add: length_limit_history)
  note ih = Cons.IH [OF l1]
  have res: "snd (broadcast_settle st (map (\<lambda>pm. (fst pm, AwaitSend (snd pm) None)) (pm # pms)) c room)
           = broadcast_results (setItem_throws st) (setItem_calls st) room (map snd (pm # pms))"
    using s ih
    by (simp del: broadcast_settle.simps add: broadcast_settle_snd sendMessage_resume_def)
  have ev: "emitted (fst (broadcast_settle st
              (map (\<lambda>pm. (fst pm, AwaitSend (snd pm) None)) (pm # pms)) c room))
           = emitted st @ broadcast_events (setItem_throws st) (setItem_calls st) (map snd (pm # pms))"
    using s ih
    by (simp del: broadcast_settle.simps add: broadcast_settle_fst sendMessage_resume_def)
  have st: "stored_messages (fst (broadcast_settle st
              (map (\<lambda>pm. (fst pm, AwaitSend (snd pm) None)) (pm # pms)) c room)) room
           = limit_history (stored_messages st room @
               broadcast_entries (clock st) (setItem_throws st) (clock_reads st) (setItem_calls st)
                 (map snd (pm # pms)))"
  proof (cases "setItem_throws st (setItem_calls st)")
    case True
    then show ?thesis
      using s ih
      by (simp del: broadcast_settle.simps add: broadcast_settle_fst sendMessage_resume_def)
  next
    case False
    have "stored_messages (fst (broadcast_settle ?st1 ?pnds c room)) room
            = limit_history (limit_history (stored_messages st room @ [?e]) @
                broadcast_entries (clock st) (setItem_throws st) (Suc (clock_reads st))
                  (Suc (setItem_calls st)) (map snd pms))"
      using s ih False by simp
    then show ?thesis
      using False
      by (simp del: broadcast_settle.simps
          add: broadcast_settle_fst sendMessage_resume_def limit_history_again)
  qed
  show ?case using res ev st by blast
qed

lemma length_broadcast_messages:
  "length (broadcast_messages self clk rnd objs cr rr es c room)
     = length (filter (\<lambda>e. isActive (objs (snd e))) es)"
  by (induction self clk rnd objs cr rr es c room rule: broadcast_messages.induct) simp_all

lemma broadcast_messages_cong:
  "\<forall>e \<in> set es. objs (snd e) = objs' (snd e) \<Longrightarrow>
     broadcast_messages self clk rnd objs cr rr es c room
       = broadcast_messages self clk rnd objs' cr rr es c room"
  by (induction self clk rnd objs cr rr es c room rule: broadcast_messages.induct) simp_all

lemma sendMessage_send_counters:
  "clock_reads (fst (sendMessage_send st r c room)) = Suc (Suc (clock_reads st)) \<and>
   rand_reads (fst (sendMessage_send st r c room)) = Suc (rand_reads st) \<and>
   rand (fst (sendMessage_send st r c room)) = rand st"
  by (auto simp: sendMessage_send_def Date_now_def generateEventId_def Let_def send_def
      split: sum.splits if_splits option.splits)

lemma sendMessage_start_step:
  assumes "Map_get (sessions st) p = Some r" and "isActive (objects st r)"
    and "m = chat_message (node_peerId st) room (clock st (clock_reads st)) (seq (objects st r))
              (show_int (clock st (Suc (clock_reads st))) @ ''_'' @ rand st (rand_reads st)) c"
  shows "snd (sendMessage_start st p c room) = AwaitSend m None \<and>
         clock_reads (fst (sendMessage_start st p c room)) = Suc (Suc (clock_reads st)) \<and>
         rand_reads (fst (sendMessage_start st p c room)) = Suc (rand_reads st) \<and>
         rand (fst (sendMessage_start st p c room)) = rand st \<and>
         (\<exists>json. JSON_stringify m = Some json \<and>
            outbound (objects (fst (sendMessage_start st p c room)) r) =
              outbound (objects st r) @ [uint8ArrayFromString json])"
proof -
  obtain json where j: "JSON_stringify m = Some json"
    unfolding assms(3) using stringify_chat_message by blast
  have "snd (sendMessage_send st r c room) = (m, None) \<and>
        outbound (objects (fst (sendMessage_send st r c room)) r) =
          outbound (objects st r) @ [uint8ArrayFromString json]"
    using assms(2) j unfolding assms(3)
    by (simp add: sendMessage_send_def Date_now_def generateEventId_def Let_def send_active)
  then have "snd (sendMessage_start st p c room) = AwaitSend m None \<and>
        outbound (objects (fst (sendMessage_start st p c room)) r) =
          outbound (objects st r) @ [uint8ArrayFromString json]"
    by (simp add: sendMessage_start_found [OF assms(1)])
  moreover have "clock_reads (fst (sendMessage_start st p c room)) = Suc (Suc (clock_reads st)) \<and>
         rand_reads (fst (sendMessage_start st p c room)) = Suc (rand_reads st) \<and>
         rand (fst (sendMessage_start st p c room)) = rand st"
    using sendMessage_send_counters [of st r c room]
    by (simp add: sendMessage_start_found [OF assms(1)])
  ultimately show ?thesis using j by blast
qed

lemma broadcast_calls_messages:
  assumes "\<forall>e \<in> set es. Map_get (sessions st) (fst e) = Some (snd e)"
    and "distinct (map snd es)"
  shows "snd (broadcast_calls st es c room) =
           map (\<lambda>pm. (fst pm, AwaitSend (snd pm) None))
             (zip (map fst (filter (\<lambda>e. isActive (objects st (snd e))) es))
                (broadcast_messages (node_peerId st) (clock st) (rand st) (objects st)
                   (clock_reads st) (rand_reads st) es c room)) \<and>
         clock_reads (fst (broadcast_calls st es c room)) =
           clock_reads st + 2 * length (filter (\<lambda>e. isActive (objects st (snd e))) es) \<and>
         (\<forall>em \<in> set (zip (filter (\<lambda>e. isActive (objects st (snd e))) es)
                        (broadcast_messages (node_peerId st) (clock st) (rand st) (objects st)
                           (clock_reads st) (rand_reads st) es c room)).
            \<exists>json. JSON_stringify (snd em) = Some json \<and>
              outbound (objects (fst (broadcast_calls st es c room)) (snd (fst em))) =
                outbound (objects st (snd (fst em))) @ [uint8ArrayFromString json])"
  using assms
proof (induction es arbitrary: st)
  case Nil
  then show ?case by simp
next
  case (Cons e es)
  obtain p r where e: "e = (p, r)" by (cases e)
  have look: "Map_get (sessions st) p = Some r"
    using Cons.prems(1) e by simp
  have d: "distinct (map snd es)" and notin: "r \<notin> snd ` set es"
    using Cons.prems(2) e by simp_all
  show ?case
  proof (cases "isActive (objects st r)")
    case False
    have "\<forall>e \<in> set es. Map_get (sessions st) (fst e) = Some (snd e)"
      using Cons.prems(1) by simp
    from Cons.IH [OF this d]
    show ?thesis
      unfolding e broadcast_calls_fst broadcast_calls_snd using False by simp
  next
    case True
    let ?st1 = "fst (sendMessage_start st p c room)"
    let ?m = "chat_message (node_peerId st) room (clock st (clock_reads st)) (seq (objects st r))
              (show_int (clock st (Suc (clock_reads st))) @ ''_'' @ rand st (rand_reads st)) c"
    let ?act = "filter (\<lambda>e. isActive (objects st (snd e))) es"
    let ?rest = "broadcast_messages (node_peerId st) (clock st) (rand st) (objects st)
                   (Suc (Suc (clock_reads st))) (Suc (rand_reads st)) es c room"
    let ?end = "fst (broadcast_calls ?st1 es c room)"
    have fr: "sessions ?st1 = sessions st" "node_peerId ?st1 = node_peerId st"
      "clock ?st1 = clock st" "\<And>r'. isActive (objects ?st1 r') = isActive (objects st r')"
      using sendMessage_start_frame [of st p c room] by simp_all
    from sendMessage_start_step [where c = c and room = room, OF look True refl]
    obtain json where
      pnd: "snd (sendMessage_start st p c room) = AwaitSend ?m None"
      and cr: "clock_reads ?st1 = Suc (Suc (clock_reads st))"
      and rr: "rand_reads ?st1 = Suc (rand_reads st)"
      and rnd: "rand ?st1 = rand st"
      and j: "JSON_stringify ?m = Some json"
      and q: "outbound (objects ?st1 r) = outbound (objects st r) @ [uint8ArrayFromString json]"
      by blast
    have same: "\<forall>e \<in> set es. objects ?st1 (snd e) = objects st (snd e)"
    proof
      fix e' assume "e' \<in> set es"
      then have "snd e' \<noteq> r" using notin by auto
      then show "objects ?st1 (snd e') = objects st (snd e')"
        using sendMessage_start_others [OF look] by simp
    qed
    have msgs1: "broadcast_messages (node_peerId ?st1) (clock ?st1) (rand ?st1) (objects ?st1)
                   (clock_reads ?st1) (rand_reads ?st1) es c room = ?rest"
      unfolding fr cr rr rnd using broadcast_messages_cong [OF same] .
    have look1: "\<forall>e \<in> set es. Map_get (sessions ?st1) (fst e) = Some (snd e)"
      using Cons.prems(1) fr(1) by simp
    from Cons.IH [OF look1 d, unfolded msgs1, unfolded fr(4) cr]
    have ih1: "snd (broadcast_calls ?st1 es c room) =
                 map (\<lambda>pm. (fst pm, AwaitSend (snd pm) None)) (zip (map fst ?act) ?rest)"
      and ih2: "clock_reads ?end = Suc (Suc (clock_reads st)) + 2 * length ?act"
      and ih3: "\<forall>em \<in> set (zip ?act ?rest).
                  \<exists>json. JSON_stringify (snd em) = Some json \<and>
                    outbound (objects ?end (snd (fst em))) =
                      outbound (objects ?st1 (snd (fst em))) @ [uint8ArrayFromString json]"
      by simp_all
    have final: "objects ?end r = objects ?st1 r"
      using broadcast_calls_others [OF look1 notin] .
    have msgs: "broadcast_messages (node_peerId st) (clock st) (rand st) (objects st)
                   (clock_reads st) (rand_reads st) (e # es) c room = ?m # ?rest"
      and act: "filter (\<lambda>e. isActive (objects st (snd e))) (e # es) = e # ?act"
      and fin: "fst (broadcast_calls st (e # es) c room) = ?end"
      using True e by (simp_all del: broadcast_calls.simps add: broadcast_calls_fst)
    have a: "snd (broadcast_calls st (e # es) c room) =
               map (\<lambda>pm. (fst pm, AwaitSend (snd pm) None))
                 (zip (map fst (e # ?act)) (?m # ?rest))"
      unfolding e broadcast_calls_snd using True pnd ih1 by simp
    have b: "clock_reads ?end = clock_reads st + 2 * length (e # ?act)"
      using ih2 by simp
    have c: "\<forall>em \<in> set (zip (e # ?act) (?m # ?rest)).
               \<exists>json. JSON_stringify (snd em) = Some json \<and>
                 outbound (objects ?end (snd (fst em))) =
                   outbound (objects st (snd (fst em))) @ [uint8ArrayFromString json]"
    proof
      fix em assume "em \<in> set (zip (e # ?act) (?m # ?rest))"
      then consider "em = (e, ?m)" | "em \<in> set (zip ?act ?rest)"
        by auto
      then show "\<exists>json. JSON_stringify (snd em) = Some json \<and>
                 outbound (objects ?end (snd (fst em))) =
                   outbound (objects st (snd (fst em))) @ [uint8ArrayFromString json]"
      proof cases
        case 1
        then show ?thesis using j q final e by simp
      next
        case 2
        then have "fst em \<in> set es"
          by (metis prod.collapse set_zip_leftD filter_is_subset subsetD)
        then have o: "objects ?st1 (snd (fst em)) = objects st (snd (fst em))"
          using same by simp
        from ih3 2 obtain json' where "JSON_stringify (snd em) = Some json'"
          and "outbound (objects ?end (snd (fst em))) =
                 outbound (objects ?st1 (snd (fst em))) @ [uint8ArrayFromString json']"
          by blast
        then show ?thesis unfolding o by blast
      qed
    qed
    show ?thesis
      unfolding msgs act fin using a b c by blast
  qed
qed

text \<open>
  C10, amended. A call of \<^verbatim>\<open>broadcast\<close> with \<open>N\<close> active sessions builds \<open>N\<close> chat
  messages with the given room and body, one for each active session in the order of
  the registry: the message of a session has its own reading of the clock as
  \<^verbatim>\<open>origin_ts\<close>, the sequence number of that session, and an event identifier made of
  the next reading of the clock and a random suffix. Each message is queued, as JSON,
  on its session. Whatever the storage does, a message whose write succeeds is
  returned, gets one \<^verbatim>\<open>message:sent\<close> event, and is appended with its own
  \<^verbatim>\<open>stored_at\<close> to the history of the room, of which the storage keeps the last 1000
  entries; a message whose write throws is rejected with the error of the storage
  and has no event and no entry, although it was queued.
\<close>

theorem broadcast_entry_and_event_per_recipient:
  assumes "distinct (map fst (sessions st))"
    and "distinct (map snd (sessions st))"
    and "length (stored_messages st roomId) \<le> MAX_MESSAGES_PER_ROOM"
    and "msgs = broadcast_messages (node_peerId st) (clock st) (rand st) (objects st)
                  (clock_reads st) (rand_reads st) (sessions st) content roomId"
    and "st' = fst (broadcast st content roomId)"
  shows "length msgs = length (getActiveSessions st) \<and>
         snd (broadcast st content roomId)
           = broadcast_results (setItem_throws st) (setItem_calls st) roomId msgs \<and>
         emitted st' = emitted st @ broadcast_events (setItem_throws st) (setItem_calls st) msgs \<and>
         stored_messages st' roomId
           = limit_history (stored_messages st roomId @
               broadcast_entries (clock st) (setItem_throws st) (clock_reads st + 2 * length msgs)
                 (setItem_calls st) msgs) \<and>
         (\<forall>em \<in> set (zip (getActiveSessions st) msgs).
            \<exists>json. JSON_stringify (snd em) = Some json \<and>
              outbound (objects st' (snd (fst em))) =
                outbound (objects st (snd (fst em))) @ [uint8ArrayFromString json])"
proof -
  let ?calls = "broadcast_calls st (sessions st) content roomId"
  let ?pms = "zip (map fst (getActiveSessions st)) msgs"
  have look: "\<forall>e \<in> set (sessions st). Map_get (sessions st) (fst e) = Some (snd e)"
    using sessions_lookup [OF assms(1)] .
  have len: "length msgs = length (getActiveSessions st)"
    unfolding assms(4) getActiveSessions_def by (rule length_broadcast_messages)
  from broadcast_calls_messages [OF look assms(2), of content roomId]
  have pnds: "snd ?calls = map (\<lambda>pm. (fst pm, AwaitSend (snd pm) None)) ?pms"
    and reads: "clock_reads (fst ?calls) = clock_reads st + 2 * length msgs"
    and queued: "\<forall>em \<in> set (zip (getActiveSessions st) msgs).
            \<exists>json. JSON_stringify (snd em) = Some json \<and>
              outbound (objects (fst ?calls) (snd (fst em))) =
                outbound (objects st (snd (fst em))) @ [uint8ArrayFromString json]"
    unfolding assms(4) getActiveSessions_def length_broadcast_messages by simp_all
  have snds: "map snd ?pms = msgs"
    using len by (simp add: map_snd_zip)
  have b: "broadcast st content roomId = broadcast_settle (fst ?calls)
             (map (\<lambda>pm. (fst pm, AwaitSend (snd pm) None)) ?pms) content roomId"
    using pnds by (simp add: broadcast_def case_prod_unfold)
  note fr = broadcast_calls_frame [of st "sessions st" content roomId]
  have st1: "stored_messages (fst ?calls) roomId = stored_messages st roomId"
    using fr by (simp add: stored_messages_def)
  have l1: "length (stored_messages (fst ?calls) roomId) \<le> MAX_MESSAGES_PER_ROOM"
    using st1 assms(3) by simp
  note out = broadcast_settle_outcome [OF l1, of ?pms content]
  have res: "snd (broadcast st content roomId)
           = broadcast_results (setItem_throws st) (setItem_calls st) roomId msgs"
    using out fr unfolding b snds by simp
  have ev: "emitted st' = emitted st @ broadcast_events (setItem_throws st) (setItem_calls st) msgs"
    using out fr unfolding assms(5) b snds by simp
  have hist: "stored_messages st' roomId
           = limit_history (stored_messages st roomId @
               broadcast_entries (clock st) (setItem_throws st) (clock_reads st + 2 * length msgs)
                 (setItem_calls st) msgs)"
    using out fr unfolding assms(5) b snds st1 reads by simp
  have obj: "objects st' = objects (fst ?calls)"
    unfolding assms(5) b by (rule broadcast_settle_objects)
  show ?thesis
    using len res ev hist queued unfolding obj by blast
qed

lemma first_write_fails_registry:
  "sessions first_write_fails = [(''QmPeer1'', 0), (''QmPeer2'', 1), (''QmPeer3'', 2)] \<and>
   isActive (objects first_write_fails 0) \<and> isActive (objects first_write_fails 1) \<and>
   isActive (objects first_write_fails 2) \<and> node_peerId first_write_fails = ''QmSelf''"
  by (simp add: first_write_fails_def three_sessions_def example_protocol_def
      handleIncomingStream_def new_ChatProtocol_def Map_has_def sendHandshake_def send_def
      handshake_def new_ChatSession_def emit_def Let_def)

lemma first_write_fails_results:
  "map isl (snd (broadcast first_write_fails ''yo'' ''public'')) = [True, False, False]"
  by (simp add: first_write_fails_def three_sessions_def example_protocol_def
      handleIncomingStream_def new_ChatProtocol_def Map_has_def Map_get_def sendHandshake_def
      send_def handshake_def new_ChatSession_def emit_def Let_def broadcast_def
      sendMessage_start_def sendMessage_send_def sendMessage_resume_def sendMessage_store_def
      addMessage_def Date_now_def generateEventId_def chat_message_def stored_messages_def)

theorem broadcast_attempts_every_active_session_witness:
  "distinct (map fst (sessions first_write_fails)) \<and>
   distinct (map snd (sessions first_write_fails)) \<and>
   (''QmPeer2'', 1) \<in> set (sessions first_write_fails) \<and>
   isActive (objects first_write_fails 1) \<and>
   (\<exists>ts sq ev json.
      JSON_stringify (chat_message ''QmSelf'' ''public'' ts sq ev ''yo'') = Some json \<and>
      outbound (objects (fst (broadcast first_write_fails ''yo'' ''public'')) 1) =
        outbound (objects first_write_fails 1) @ [uint8ArrayFromString json]) \<and>
   length (snd (broadcast first_write_fails ''yo'' ''public'')) = 3 \<and>
   map isl (snd (broadcast first_write_fails ''yo'' ''public'')) = [True, False, False] \<and>
   objects (handleStream_outbound (fst (broadcast first_write_fails ''yo'' ''public'')) 0 False) 1 =
     objects (fst (broadcast first_write_fails ''yo'' ''public'')) 1"
proof -
  note reg = first_write_fails_registry
  have h1: "distinct (map fst (sessions first_write_fails))"
    and h2: "distinct (map snd (sessions first_write_fails))"
    and h3: "(''QmPeer2'', 1) \<in> set (sessions first_write_fails)"
    and h4: "isActive (objects first_write_fails 1)"
    using reg by simp_all
  have n: "length (getActiveSessions first_write_fails) = 3"
    using reg by (simp add: getActiveSessions_def)
  show ?thesis
    using broadcast_attempts_every_active_session [OF h1 h2 h3 h4, of "''public''" "''yo''"]
      h1 h2 h3 h4 n reg first_write_fails_results
    by simp
qed

lemma storage_full_state:
  "sessions storage_full = [(''QmPeerC'', 0)] \<and> isActive (objects storage_full 0) \<and>
   emitted storage_full = [(''chat:connected'', JObj [(''peerId'', JStr ''QmPeerC'')])]"
  by (simp add: storage_full_def after_inbound_def example_protocol_def
      handleIncomingStream_def new_ChatProtocol_def Map_has_def sendHandshake_def send_def
      handshake_def new_ChatSession_def emit_def Let_def)

text \<open>
  C10, as stated, fails: with one active session and a local storage whose writes
  throw, \<^verbatim>\<open>broadcast\<close> queues the message for the peer, but its call of
  \<^verbatim>\<open>sendMessage\<close> is rejected by \<^verbatim>\<open>addMessage\<close>: no history entry is added and no
  \<^verbatim>\<open>message:sent\<close> event is emitted.
\<close>

theorem broadcast_storage_failure_no_entry_no_event:
  "length (getActiveSessions storage_full) = 1 \<and>
   snd (broadcast storage_full ''yo'' ''public'') = [Inl (StorageFailed ''history-public'')] \<and>
   emitted storage_full = [(''chat:connected'', JObj [(''peerId'', JStr ''QmPeerC'')])] \<and>
   emitted (fst (broadcast storage_full ''yo'' ''public''))
     = [(''chat:connected'', JObj [(''peerId'', JStr ''QmPeerC'')])] \<and>
   stored_messages (fst (broadcast storage_full ''yo'' ''public'')) ''public'' = [] \<and>
   length (outbound (objects storage_full 0)) = 1 \<and>
   length (outbound (objects (fst (broadcast storage_full ''yo'' ''public'')) 0)) = 2"
  by (simp add: storage_full_def after_inbound_def example_protocol_def
      handleIncomingStream_def new_ChatProtocol_def Map_has_def Map_get_def sendHandshake_def
      send_def handshake_def new_ChatSession_def emit_def Let_def broadcast_def
      sendMessage_start_def sendMessage_send_def sendMessage_resume_def sendMessage_store_def
      addMessage_def Date_now_def generateEventId_def chat_message_def stored_messages_def
      getActiveSessions_def)

lemma first_write_fails_env:
  "clock first_write_fails = (\<lambda>n. 1000 + int n) \<and> clock_reads first_write_fails = 0 \<and>
   rand first_write_fails = (\<lambda>n. ''k3j9x2a'') \<and> rand_reads first_write_fails = 0 \<and>
   setItem_throws first_write_fails = (\<lambda>n. n = 0) \<and> setItem_calls first_write_fails = 0 \<and>
   localStorage first_write_fails = (\<lambda>k. None) \<and>
   seq (objects first_write_fails 0) = 1 \<and> seq (objects first_write_fails 1) = 1 \<and>
   seq (objects first_write_fails 2) = 1"
  by (simp add: first_write_fails_def three_sessions_def example_protocol_def
      handleIncomingStream_def new_ChatProtocol_def Map_has_def sendHandshake_def send_def
      handshake_def new_ChatSession_def emit_def Let_def)

lemma show_int_1001: "show_int 1001 = ''1001''" "show_int 1003 = ''1003''" "show_int 1005 = ''1005''"
  by (simp_all add: show_int_def show_nat.simps digit_char_def char_of_def bit_0)

theorem broadcast_entry_and_event_per_recipient_witness:
  "distinct (map fst (sessions first_write_fails)) \<and>
   distinct (map snd (sessions first_write_fails)) \<and>
   length (stored_messages first_write_fails ''public'') \<le> MAX_MESSAGES_PER_ROOM \<and>
   getActiveSessions first_write_fails = [(''QmPeer1'', 0), (''QmPeer2'', 1), (''QmPeer3'', 2)] \<and>
   snd (broadcast first_write_fails ''yo'' ''public'') =
     [Inl (StorageFailed ''history-public''),
      Inr (chat_message ''QmSelf'' ''public'' 1002 1 ''1003_k3j9x2a'' ''yo''),
      Inr (chat_message ''QmSelf'' ''public'' 1004 1 ''1005_k3j9x2a'' ''yo'')] \<and>
   emitted (fst (broadcast first_write_fails ''yo'' ''public'')) =
     emitted first_write_fails @
       [(''message:sent'', chat_message ''QmSelf'' ''public'' 1002 1 ''1003_k3j9x2a'' ''yo''),
        (''message:sent'', chat_message ''QmSelf'' ''public'' 1004 1 ''1005_k3j9x2a'' ''yo'')] \<and>
   stored_messages (fst (broadcast first_write_fails ''yo'' ''public'')) ''public'' =
     [stored_entry (chat_message ''QmSelf'' ''public'' 1002 1 ''1003_k3j9x2a'' ''yo'') 1007,
      stored_entry (chat_message ''QmSelf'' ''public'' 1004 1 ''1005_k3j9x2a'' ''yo'') 1008] \<and>
   (\<exists>json. JSON_stringify (chat_message ''QmSelf'' ''public'' 1000 1 ''1001_k3j9x2a'' ''yo'')
              = Some json \<and>
      outbound (objects (fst (broadcast first_write_fails ''yo'' ''public'')) 0) =
        outbound (objects first_write_fails 0) @ [uint8ArrayFromString json])"
proof -
  note reg = first_write_fails_registry
  note env = first_write_fails_env
  have h1: "distinct (map fst (sessions first_write_fails))"
    and h2: "distinct (map snd (sessions first_write_fails))"
    using reg by simp_all
  have empty: "stored_messages first_write_fails ''public'' = []"
    using env by (simp add: stored_messages_def)
  have h3: "length (stored_messages first_write_fails ''public'') \<le> MAX_MESSAGES_PER_ROOM"
    using empty by simp
  have act: "getActiveSessions first_write_fails
               = [(''QmPeer1'', 0), (''QmPeer2'', 1), (''QmPeer3'', 2)]"
    using reg by (simp add: getActiveSessions_def)
  have msgs: "broadcast_messages (node_peerId first_write_fails) (clock first_write_fails)
                (rand first_write_fails) (objects first_write_fails)
                (clock_reads first_write_fails) (rand_reads first_write_fails)
                (sessions first_write_fails) ''yo'' ''public'' =
              [chat_message ''QmSelf'' ''public'' 1000 1 ''1001_k3j9x2a'' ''yo'',
               chat_message ''QmSelf'' ''public'' 1002 1 ''1003_k3j9x2a'' ''yo'',
               chat_message ''QmSelf'' ''public'' 1004 1 ''1005_k3j9x2a'' ''yo'']"
    using reg env by (simp add: show_int_1001)
  have lim: "limit_history [a, b] = [a, b]" for a b
    by (simp add: limit_history_def MAX_MESSAGES_PER_ROOM_def)
  show ?thesis
    using broadcast_entry_and_event_per_recipient
        [where content = "''yo''" and roomId = "''public''", OF h1 h2 h3 refl refl]
      h1 h2 h3
    unfolding msgs act empty
    using env by (simp add: lim)
qed

end
